theory Spec2Isabelle
  imports Main
begin

section \<open>Strings\<close>

text \<open>
  A JavaScript string is modelled as a \<^typ>\<open>string\<close>: one \<^typ>\<open>char\<close> per code unit
  (code units below 256). \<open>s.slice(0, n)\<close> is \<^term>\<open>take n s\<close> and \<open>a + b\<close> is
  \<^term>\<open>a @ b\<close>. A string is truthy when it is not empty.
\<close>

definition startsWith :: "string \<Rightarrow> string \<Rightarrow> bool" where
  "startsWith s p = (take (length p) s = p)"

definition endsWith :: "string \<Rightarrow> string \<Rightarrow> bool" where
  "endsWith s p = (length p \<le> length s \<and> drop (length s - length p) s = p)"

text \<open>\<open>s.replace(pat, rep)\<close> with a string pattern: the first occurrence only.\<close>

fun replace_first :: "string \<Rightarrow> string \<Rightarrow> string \<Rightarrow> string" where
  "replace_first [] pat rep = (if pat = [] then rep else [])"
| "replace_first (c # cs) pat rep =
     (if startsWith (c # cs) pat then rep @ drop (length pat) (c # cs)
      else c # replace_first cs pat rep)"

text \<open>\<open>s.replace(/^-/, '/')\<close>: a dash at position 0 becomes a slash.\<close>

fun replace_leading_dash :: "string \<Rightarrow> string" where
  "replace_leading_dash [] = []"
| "replace_leading_dash (c # cs) = (if c = CHR ''-'' then CHR ''/'' # cs else c # cs)"

text \<open>\<open>s.replace(/-/g, '/')\<close>: every dash becomes a slash.\<close>

fun replace_all_dashes :: "string \<Rightarrow> string" where
  "replace_all_dashes [] = []"
| "replace_all_dashes (c # cs) =
     (if c = CHR ''-'' then CHR ''/'' # replace_all_dashes cs else c # replace_all_dashes cs)"

text \<open>\<open>s.split('\n')\<close>: the pieces between line feeds; the empty string gives one empty piece.\<close>

fun split_nl :: "string \<Rightarrow> string list" where
  "split_nl [] = [[]]"
| "split_nl (c # cs) =
     (if c = CHR 0x0A then [] # split_nl cs
      else (case split_nl cs of [] \<Rightarrow> [[c]] | l # ls \<Rightarrow> (c # l) # ls))"

text \<open>\<open>parts.join('\n')\<close>.\<close>

fun join_nl :: "string list \<Rightarrow> string" where
  "join_nl [] = []"
| "join_nl [p] = p"
| "join_nl (p # q # ps) = p @ [CHR 0x0A] @ join_nl (q # ps)"

text \<open>
  \<open>s.trim()\<close> removes white space and line terminators at both ends: tab, line feed,
  vertical tab, form feed, carriage return, space and no-break space among the code units
  modelled.
\<close>

definition is_ws :: "char \<Rightarrow> bool" where
  "is_ws c = (c = CHR 0x09 \<or> c = CHR 0x0A \<or> c = CHR 0x0B \<or> c = CHR 0x0C \<or> c = CHR 0x0D
              \<or> c = CHR 0x20 \<or> c = CHR 0xA0)"

definition trim :: "string \<Rightarrow> string" where
  "trim s = rev (dropWhile is_ws (rev (dropWhile is_ws s)))"

text \<open>
  A value that the code tests for truthiness and that is a string when present:
  \<open>None\<close> is an absent field, and the empty string is falsy too.
\<close>

definition truthy :: "string option \<Rightarrow> bool" where
  "truthy v = (case v of None \<Rightarrow> False | Some s \<Rightarrow> s \<noteq> [])"

text \<open>\<open>v || ''\<close>.\<close>

definition or_empty :: "string option \<Rightarrow> string" where
  "or_empty v = (case v of None \<Rightarrow> [] | Some s \<Rightarrow> s)"

text \<open>
  POSIX \<open>path.join\<close>: the arguments that are not empty are joined by separators and
  the result is normalised. \<open>normalizeString\<close> works on the segments between separators:
  an empty segment and \<open>.\<close> are dropped, \<open>..\<close> removes the segment before it (it is
  kept in front of a relative path and dropped at the root), and every other segment is
  kept. \<open>path_join\<close> is the call with two arguments.
\<close>

fun split_slash :: "string \<Rightarrow> string list" where
  "split_slash [] = [[]]"
| "split_slash (c # cs) =
     (if c = CHR ''/'' then [] # split_slash cs
      else (case split_slash cs of [] \<Rightarrow> [[c]] | l # ls \<Rightarrow> (c # l) # ls))"

fun join_slash :: "string list \<Rightarrow> string" where
  "join_slash [] = []"
| "join_slash [p] = p"
| "join_slash (p # q # ps) = p @ ''/'' @ join_slash (q # ps)"

fun normalizeString :: "bool \<Rightarrow> string list \<Rightarrow> string list \<Rightarrow> string list" where
  "normalizeString allowAboveRoot res [] = res"
| "normalizeString allowAboveRoot res (seg # segs) =
     (if seg = [] \<or> seg = ''.'' then normalizeString allowAboveRoot res segs
      else if seg = ''..'' then
        (if res \<noteq> [] \<and> last res \<noteq> ''..''
         then normalizeString allowAboveRoot (butlast res) segs
         else if allowAboveRoot then normalizeString allowAboveRoot (res @ [''..'']) segs
         else normalizeString allowAboveRoot res segs)
      else normalizeString allowAboveRoot (res @ [seg]) segs)"

definition path_normalize :: "string \<Rightarrow> string" where
  "path_normalize p =
     (if p = [] then ''.''
      else (let isAbsolute = (hd p = CHR ''/'');
                trailingSeparator = (last p = CHR ''/'');
                res = join_slash (normalizeString (\<not> isAbsolute) [] (split_slash p))
            in if res = []
               then (if isAbsolute then ''/'' else if trailingSeparator then ''./'' else ''.'')
               else (if isAbsolute then ''/'' else []) @ res
                      @ (if trailingSeparator then ''/'' else [])))"

definition path_joins :: "string list \<Rightarrow> string" where
  "path_joins args =
     (let joined = join_slash (filter (\<lambda>a. a \<noteq> []) args)
      in if joined = [] then ''.'' else path_normalize joined)"

definition path_join :: "string \<Rightarrow> string \<Rightarrow> string" where
  "path_join a b = path_joins [a, b]"

text \<open>
  POSIX \<open>path.basename(p)\<close>: trailing separators are skipped, then the characters back
  to the previous separator are taken.
\<close>

definition path_basename :: "string \<Rightarrow> string" where
  "path_basename p =
     rev (takeWhile (\<lambda>c. c \<noteq> CHR ''/'') (dropWhile (\<lambda>c. c = CHR ''/'') (rev p)))"

section \<open>Data model\<close>

text \<open>
  What is thrown: the errors of the file system calls of the platform, and the
  \<open>TypeError\<close> of reading a property of \<open>null\<close> and of \<open>path.basename\<close> on a
  value that is not a string.
\<close>

datatype error = ENOENT | EACCES | EISDIR | ENOTDIR | TypeError

text \<open>A value of type \<open>unknown\<close> (the \<open>input\<close> of a tool invocation), copied and never read.\<close>

datatype json = JNull | JBool bool | JNumber int | JString string
  | JArray "json list" | JObject "(string \<times> json) list"

text \<open>
  \<open>content: string | ContentBlock[]\<close>. An element of the array is \<open>None\<close> where it is
  \<open>null\<close>: reading a property of it throws. Every other element is read as a block (an
  element that is not an object is a block without fields). \<open>COther\<close> is any other
  value found at run time (null, a number, a boolean, an object): the code treats all of
  them alike.
\<close>

datatype 'b content_of = CString string | CArray "'b option list" | COther

text \<open>
  The interface \<open>ContentBlock\<close>, lines 120 to 129; \<open>None\<close> is a field that the block
  does not have.
\<close>

datatype ContentBlock = ContentBlock
  (cb_type: "string option")
  (cb_text: "string option")
  (cb_id: "string option")
  (cb_name: "string option")
  (cb_input: "json option")
  (cb_tool_use_id: "string option")
  (cb_content: "ContentBlock content_of option")
  (cb_is_error: "bool option")

text \<open>
  Modelled from the spec: the type \<open>MessageContentBlock\<close>, which the parser imports from
  \<open>@/types\<close> and which is not among the sources. It is the tagged union
  \<open>Text{text} | ToolUse{id, name, input} | ToolResult{toolUseId, content, isError}\<close> of
  the specification, with the fields of the object literals that the parser builds:
  \<open>{type: 'text', text}\<close>, \<open>{type: 'tool_use', id, name, input}\<close> and
  \<open>{type: 'tool_result', tool_use_id, content, is_error}\<close>.
\<close>

datatype MessageContentBlock =
    TextBlock string
  | ToolUseBlock string string "json option"
  | ToolResultBlock string string bool

datatype Role = User | Assistant

record ParsedMessage =
  role :: Role
  content :: string
  contentBlocks :: "MessageContentBlock list"
  hasToolBlocks :: bool
  timestamp :: string

record ClaudeSessionInfo =
  sessionId :: string
  projectPath :: string
  projectName :: string
  cwd :: string
  gitBranch :: string
  version :: string
  preview :: string
  userMessageCount :: nat
  assistantMessageCount :: nat
  createdAt :: string
  updatedAt :: string
  fileSize :: nat

record ParsedSession =
  info :: ClaudeSessionInfo
  messages :: "ParsedMessage list"

text \<open>
  The field \<open>cwd\<close> of a line as found at run time: a string, or a truthy value that is
  not a string (a number, \<open>true\<close>, an array, an object), on which \<open>path.basename\<close>
  throws. A falsy value is read like a field that the line does not have.
\<close>

datatype cwd_value = CwdString string | CwdOther

text \<open>
  A decoded line (\<open>JournalEntry\<close>, \<open>UserEntry\<close>, \<open>AssistantEntry\<close>, lines 76 to 118),
  with the fields the parser reads. A line is cast to these interfaces and not checked,
  so every field is optional here: \<open>None\<close> is a field that the line does not have.
  \<open>e_message\<close> is \<open>None\<close> too where \<open>entry.message?.content\<close> finds nothing to read
  \<open>content\<close> from. The fields \<open>type\<close>, \<open>timestamp\<close>, \<open>gitBranch\<close>, \<open>version\<close> and the
  \<open>text\<close> of a block are typed as the interfaces declare them; the elements of a content
  array and the field \<open>cwd\<close> are as found at run time, since the code throws on them.
\<close>

record EntryMessage =
  m_content :: "ContentBlock content_of option"

record JournalEntry =
  e_type :: "string option"
  e_timestamp :: "string option"
  e_cwd :: "cwd_value option"
  e_gitBranch :: "string option"
  e_version :: "string option"
  e_message :: "EntryMessage option"

text \<open>\<open>fs.Stats\<close>: the size, and \<open>birthtime.toISOString()\<close> and \<open>mtime.toISOString()\<close>.\<close>

record Stats =
  st_size :: nat
  birthtime :: string
  mtime :: string

record Dirent =
  name :: string
  isDirectory :: bool

text \<open>
  What the parser calls and does not define: the home directory, the file system calls
  (each returns its value or the error it throws), \<open>JSON.parse\<close> followed by the cast to
  \<open>JournalEntry\<close> (\<open>None\<close> when the line does not decode to a value whose fields can be
  read), and \<open>new Date(s).getTime()\<close>.
\<close>

record runtime =
  homedir :: string
  existsSync :: "string \<Rightarrow> bool"
  readdirSync_withFileTypes :: "string \<Rightarrow> error + Dirent list"
  readdirSync :: "string \<Rightarrow> error + string list"
  statSync :: "string \<Rightarrow> error + Stats"
  readFileSync :: "string \<Rightarrow> error + string"
  JSON_parse :: "string \<Rightarrow> JournalEntry option"
  getTime :: "string \<Rightarrow> int"

text \<open>
  The local variables of the metadata pass (lines 242 to 249 and 355 to 362), and the
  state of the full pass: these variables, the messages pushed so far, and how many times
  the clock has been read (\<open>new Date().toISOString()\<close> returns \<open>clock n\<close> at its
  \<open>n\<close>-th evaluation).
\<close>

record Scan =
  v_cwd :: cwd_value
  v_gitBranch :: string
  v_version :: string
  v_preview :: string
  v_createdAt :: string
  v_updatedAt :: string
  v_userMessageCount :: nat
  v_assistantMessageCount :: nat

record ParseState =
  scan :: Scan
  p_messages :: "ParsedMessage list"
  clockReads :: nat

section \<open>Session discovery\<close>

definition MAX_FILE_SIZE :: nat where
  "MAX_FILE_SIZE = 50 * 1024 * 1024"

definition getClaudeProjectsDir :: "runtime \<Rightarrow> string" where
  "getClaudeProjectsDir rt = path_joins [homedir rt, ''.claude'', ''projects'']"


text \<open>\<open>decodeProjectPath\<close>, lines 153 to 158.\<close>

definition decodeProjectPath :: "string \<Rightarrow> string" where
  "decodeProjectPath encodedName =
     (if \<not> startsWith encodedName ''-'' then encodedName
      else replace_all_dashes (replace_leading_dash encodedName))"

text \<open>
  \<open>readJsonlLines\<close>, lines 217 to 226. \<open>jsonl_lines\<close> is line 224. The result is the
  thrown error, or \<open>null\<close> (\<open>None\<close>), or the lines with the file's \<open>Stats\<close>.
\<close>

definition jsonl_lines :: "string \<Rightarrow> string list" where
  "jsonl_lines text = filter (\<lambda>l. trim l \<noteq> []) (split_nl text)"

definition readJsonlLines :: "runtime \<Rightarrow> string \<Rightarrow> error + (string list \<times> Stats) option" where
  "readJsonlLines rt filePath =
     (case statSync rt filePath of
        Inl e \<Rightarrow> Inl e
      | Inr stat \<Rightarrow>
          if st_size stat > MAX_FILE_SIZE then Inr None
          else (case readFileSync rt filePath of
                  Inl e \<Rightarrow> Inl e
                | Inr text \<Rightarrow> Inr (Some (jsonl_lines text, stat))))"

section \<open>The metadata pass\<close>

definition initScan :: Scan where
  "initScan = \<lparr>v_cwd = CwdString [], v_gitBranch = [], v_version = [], v_preview = [],
     v_createdAt = [], v_updatedAt = [], v_userMessageCount = 0,
     v_assistantMessageCount = 0\<rparr>"

text \<open>Lines 255 to 258, and the same statements at lines 368 to 371.\<close>

definition trackTimestamp :: "JournalEntry \<Rightarrow> Scan \<Rightarrow> Scan" where
  "trackTimestamp entry s =
     (if truthy (e_timestamp entry)
      then s\<lparr>v_createdAt := (if v_createdAt s = [] then or_empty (e_timestamp entry)
                              else v_createdAt s),
             v_updatedAt := or_empty (e_timestamp entry)\<rparr>
      else s)"

text \<open>\<open>if (!cur && v) cur = v\<close>; lines 264 to 266, and the same at lines 377 to 379.\<close>

definition first_wins :: "string \<Rightarrow> string option \<Rightarrow> string" where
  "first_wins cur v = (if cur = [] \<and> truthy v then or_empty v else cur)"

text \<open>
  The truthiness of a \<open>cwd\<close>, and \<open>if (!cwd && userEntry.cwd) cwd = userEntry.cwd\<close>,
  line 264 and line 377.
\<close>

fun cwd_truthy :: "cwd_value \<Rightarrow> bool" where
  "cwd_truthy (CwdString c) = (c \<noteq> [])"
| "cwd_truthy CwdOther = True"

definition first_cwd :: "cwd_value \<Rightarrow> cwd_value option \<Rightarrow> cwd_value" where
  "first_cwd cur v =
     (case v of
        None \<Rightarrow> cur
      | Some found \<Rightarrow> if \<not> cwd_truthy cur \<and> cwd_truthy found then found else cur)"

definition captureFields :: "JournalEntry \<Rightarrow> Scan \<Rightarrow> Scan" where
  "captureFields userEntry s =
     s\<lparr>v_cwd := first_cwd (v_cwd s) (e_cwd userEntry),
       v_gitBranch := first_wins (v_gitBranch s) (e_gitBranch userEntry),
       v_version := first_wins (v_version s) (e_version userEntry)\<rparr>"

text \<open>\<open>entry.message?.content\<close>.\<close>

definition message_content :: "JournalEntry \<Rightarrow> ContentBlock content_of option" where
  "message_content entry = (case e_message entry of None \<Rightarrow> None | Some m \<Rightarrow> m_content m)"

text \<open>
  \<open>msgContent.find(b => b.type === 'text')\<close>: the first block tagged \<open>text\<close>. The
  search reads the tag of every element up to that block, and throws on \<open>null\<close>.
\<close>

fun find_text :: "ContentBlock option list \<Rightarrow> error + ContentBlock option" where
  "find_text [] = Inr None"
| "find_text (None # bs) = Inl TypeError"
| "find_text (Some b # bs) = (if cb_type b = Some ''text'' then Inr (Some b) else find_text bs)"

text \<open>
  Lines 268 to 278, and the same statements at lines 381 to 391: the new value of
  \<open>preview\<close>, or the error thrown.
\<close>

definition capturePreview :: "JournalEntry \<Rightarrow> string \<Rightarrow> error + string" where
  "capturePreview userEntry cur =
     (if cur \<noteq> [] then Inr cur
      else (case message_content userEntry of
              Some (CString msgContent) \<Rightarrow>
                Inr (if msgContent = [] then cur else take 120 msgContent)
            | Some (CArray msgContent) \<Rightarrow>
                (case find_text msgContent of
                   Inl e \<Rightarrow> Inl e
                 | Inr None \<Rightarrow> Inr cur
                 | Inr (Some textBlock) \<Rightarrow>
                     Inr (if truthy (cb_text textBlock)
                          then take 120 (or_empty (cb_text textBlock))
                          else cur))
            | _ \<Rightarrow> Inr cur))"

text \<open>Lines 262 to 266 (and 375 to 379): the counter and the fields of a \<open>user\<close> entry.\<close>

definition countUser :: "JournalEntry \<Rightarrow> Scan \<Rightarrow> Scan" where
  "countUser userEntry s =
     captureFields userEntry (s\<lparr>v_userMessageCount := Suc (v_userMessageCount s)\<rparr>)"

text \<open>
  Lines 260 to 278: what a \<open>user\<close> entry does to the variables. What the preview throws
  is caught by the \<open>catch\<close> of the loop body (line 282), after the counter and the fields
  were set.
\<close>

definition scanUser :: "JournalEntry \<Rightarrow> Scan \<Rightarrow> Scan" where
  "scanUser userEntry s =
     (let s2 = countUser userEntry s
      in case capturePreview userEntry (v_preview s2) of
           Inl e \<Rightarrow> s2
         | Inr p \<Rightarrow> s2\<lparr>v_preview := p\<rparr>)"

text \<open>
  The body of the loop of \<open>extractSessionInfo\<close>, lines 252 to 284. A line on which
  \<open>JSON.parse\<close> throws, or that decodes to \<open>null\<close>, changes nothing.
\<close>

definition extractLine :: "runtime \<Rightarrow> Scan \<Rightarrow> string \<Rightarrow> Scan" where
  "extractLine rt s line =
     (case JSON_parse rt line of
        None \<Rightarrow> s
      | Some entry \<Rightarrow>
          (let s1 = trackTimestamp entry s
           in if e_type entry = Some ''user'' then scanUser entry s1
              else if e_type entry = Some ''assistant''
              then s1\<lparr>v_assistantMessageCount := Suc (v_assistantMessageCount s1)\<rparr>
              else s1))"

text \<open>
  Lines 291 to 308, and the same at lines 410 to 427: \<open>cwd || projectPath\<close> and the
  object literal. \<open>path.basename\<close> throws where the effective path is not a string.
\<close>

definition makeInfo ::
  "string \<Rightarrow> string \<Rightarrow> Stats \<Rightarrow> Scan \<Rightarrow> error + ClaudeSessionInfo" where
  "makeInfo sid decodedPath stat s =
     (case (if cwd_truthy (v_cwd s) then v_cwd s else CwdString decodedPath) of
        CwdOther \<Rightarrow> Inl TypeError
      | CwdString effectivePath \<Rightarrow>
          Inr \<lparr>sessionId = sid,
               projectPath = effectivePath,
               projectName = path_basename effectivePath,
               cwd = effectivePath,
               gitBranch = v_gitBranch s,
               version = v_version s,
               preview = (if v_preview s \<noteq> [] then v_preview s else ''(no preview)''),
               userMessageCount = v_userMessageCount s,
               assistantMessageCount = v_assistantMessageCount s,
               createdAt = (if v_createdAt s \<noteq> [] then v_createdAt s else birthtime stat),
               updatedAt = (if v_updatedAt s \<noteq> [] then v_updatedAt s else mtime stat),
               fileSize = st_size stat\<rparr>)"

text \<open>\<open>extractSessionInfo\<close>, lines 231 to 309.\<close>

definition extractSessionInfo ::
  "runtime \<Rightarrow> string \<Rightarrow> string \<Rightarrow> string \<Rightarrow> error + ClaudeSessionInfo option" where
  "extractSessionInfo rt filePath sid decodedPath =
     (case readJsonlLines rt filePath of
        Inl e \<Rightarrow> Inl e
      | Inr None \<Rightarrow> Inr None
      | Inr (Some (lines, stat)) \<Rightarrow>
          if lines = [] then Inr None
          else (let s = foldl (extractLine rt) initScan lines
                in if v_userMessageCount s = 0 \<and> v_assistantMessageCount s = 0 then Inr None
                   else (case makeInfo sid decodedPath stat s of
                           Inl e \<Rightarrow> Inl e
                         | Inr found \<Rightarrow> Inr (Some found))))"

section \<open>The listing\<close>

text \<open>
  The body of the loop over the session files of one project directory, lines 187 to 197:
  the entries it pushes. An error thrown by \<open>extractSessionInfo\<close> is caught and the
  file skipped. \<open>dirPath\<close> is the variable \<open>projectPath\<close> of \<open>listClaudeSessions\<close>,
  \<open>sid\<close> is \<open>sessionId\<close>, and \<open>decodedPath\<close> is the parameter \<open>projectPath\<close> of
  \<open>extractSessionInfo\<close> (these names are fields of the records above).
\<close>

definition listFile :: "runtime \<Rightarrow> string \<Rightarrow> string \<Rightarrow> string \<Rightarrow> ClaudeSessionInfo list" where
  "listFile rt dirPath decodedPath jsonlFile =
     (let filePath = path_join dirPath jsonlFile;
          sid = replace_first jsonlFile ''.jsonl'' []
      in case extractSessionInfo rt filePath sid decodedPath of
           Inl e \<Rightarrow> []
         | Inr None \<Rightarrow> []
         | Inr (Some found) \<Rightarrow> [found])"

text \<open>
  The body of the loop over the entries of the projects directory, lines 177 to 201. A
  directory that cannot be read is skipped.
\<close>

definition listProject :: "runtime \<Rightarrow> string \<Rightarrow> Dirent \<Rightarrow> ClaudeSessionInfo list" where
  "listProject rt projectsDir projectDir =
     (if \<not> isDirectory projectDir then []
      else (let dirPath = path_join projectsDir (name projectDir);
                decodedPath = decodeProjectPath (name projectDir)
            in case readdirSync rt dirPath of
                 Inl e \<Rightarrow> []
               | Inr files \<Rightarrow>
                   concat (map (listFile rt dirPath decodedPath)
                             (filter (\<lambda>f. endsWith f ''.jsonl'') files))))"

text \<open>
  Line 208: \<open>sort\<close> is stable, and the comparator orders by descending
  \<open>new Date(updatedAt).getTime()\<close>.
\<close>

definition sortSessions :: "runtime \<Rightarrow> ClaudeSessionInfo list \<Rightarrow> ClaudeSessionInfo list" where
  "sortSessions rt sessions = sort_key (\<lambda>a. - getTime rt (updatedAt a)) sessions"

text \<open>\<open>listClaudeSessions\<close>, lines 164 to 211.\<close>

definition listClaudeSessions :: "runtime \<Rightarrow> ClaudeSessionInfo list" where
  "listClaudeSessions rt =
     (let projectsDir = getClaudeProjectsDir rt
      in if \<not> existsSync rt projectsDir then []
         else sortSessions rt
                (case readdirSync_withFileTypes rt projectsDir of
                   Inl e \<Rightarrow> []
                 | Inr projectDirs \<Rightarrow> concat (map (listProject rt projectsDir) projectDirs)))"

section \<open>Messages\<close>

text \<open>\<open>entry.timestamp || new Date().toISOString()\<close>, with the number of clock reads.\<close>

definition timestampOrNow :: "(nat \<Rightarrow> string) \<Rightarrow> nat \<Rightarrow> JournalEntry \<Rightarrow> string \<times> nat" where
  "timestampOrNow clock n entry =
     (if truthy (e_timestamp entry) then (or_empty (e_timestamp entry), n)
      else (clock n, Suc n))"

text \<open>
  \<open>blocks.filter(b => b.type === 'text')\<close>: the tag of every element is read, so the
  filter throws where an element is \<open>null\<close>.
\<close>

fun filter_text :: "ContentBlock option list \<Rightarrow> error + ContentBlock list" where
  "filter_text [] = Inr []"
| "filter_text (None # bs) = Inl TypeError"
| "filter_text (Some b # bs) =
     (case filter_text bs of
        Inl e \<Rightarrow> Inl e
      | Inr rest \<Rightarrow> Inr (if cb_type b = Some ''text'' then b # rest else rest))"

text \<open>
  \<open>blocks.filter(b => b.type === 'text').map(b => b.text || '').join('\n')\<close>, lines 444
  to 447 and 499 to 502.
\<close>

definition joinText :: "ContentBlock option list \<Rightarrow> error + string" where
  "joinText blocks =
     (case filter_text blocks of
        Inl e \<Rightarrow> Inl e
      | Inr textBlocks \<Rightarrow> Inr (join_nl (map (\<lambda>b. or_empty (cb_text b)) textBlocks)))"

text \<open>
  \<open>parseUserMessage\<close>, lines 435 to 461; \<open>userMessage\<close> is lines 452 to 460. The result
  is the error thrown, or the message (or \<open>null\<close>) with the number of clock reads.
\<close>

definition userMessage ::
  "(nat \<Rightarrow> string) \<Rightarrow> nat \<Rightarrow> JournalEntry \<Rightarrow> string \<Rightarrow> ParsedMessage option \<times> nat" where
  "userMessage clock n entry text =
     (if trim text = [] then (None, n)
      else (let (ts, n') = timestampOrNow clock n entry
            in (Some \<lparr>role = User, content = text, contentBlocks = [TextBlock text],
                      hasToolBlocks = False, timestamp = ts\<rparr>, n')))"

definition parseUserMessage ::
  "(nat \<Rightarrow> string) \<Rightarrow> nat \<Rightarrow> JournalEntry \<Rightarrow> error + ParsedMessage option \<times> nat" where
  "parseUserMessage clock n entry =
     (case message_content entry of
        None \<Rightarrow> Inr (None, n)
      | Some (CString msgContent) \<Rightarrow>
          Inr (if msgContent = [] then (None, n) else userMessage clock n entry msgContent)
      | Some (CArray msgContent) \<Rightarrow>
          (case joinText msgContent of
             Inl e \<Rightarrow> Inl e
           | Inr text \<Rightarrow> Inr (userMessage clock n entry text))
      | Some COther \<Rightarrow> Inr (None, n))"

text \<open>
  One turn of the loop of \<open>parseAssistantMessage\<close> (lines 475 to 513) on
  \<open>contentBlocks\<close>, \<open>textParts\<close> and \<open>hasToolBlocks\<close>, for a block that is not
  \<open>null\<close>.
\<close>

fun blockStep ::
  "MessageContentBlock list \<times> string list \<times> bool \<Rightarrow> ContentBlock
     \<Rightarrow> error + MessageContentBlock list \<times> string list \<times> bool" where
  "blockStep (blocks, textParts, hasTool) block =
     (if cb_type block = Some ''text'' then
        (if truthy (cb_text block)
         then Inr (blocks @ [TextBlock (or_empty (cb_text block))],
                   textParts @ [or_empty (cb_text block)], hasTool)
         else Inr (blocks, textParts, hasTool))
      else if cb_type block = Some ''tool_use'' then
        Inr (blocks @ [ToolUseBlock (or_empty (cb_id block)) (or_empty (cb_name block))
                         (cb_input block)],
             textParts, True)
      else if cb_type block = Some ''tool_result'' then
        (case (case cb_content block of
                 Some (CString c) \<Rightarrow> Inr c
               | Some (CArray cs) \<Rightarrow> joinText cs
               | _ \<Rightarrow> Inr []) of
           Inl e \<Rightarrow> Inl e
         | Inr resultContent \<Rightarrow>
             Inr (blocks @ [ToolResultBlock (or_empty (cb_tool_use_id block)) resultContent
                              (case cb_is_error block of None \<Rightarrow> False | Some b \<Rightarrow> b)],
                  textParts, True))
      else Inr (blocks, textParts, hasTool))"

text \<open>
  The loop of lines 475 to 513: \<open>switch (block.type)\<close> throws where the block is
  \<open>null\<close>.
\<close>

fun blockLoop ::
  "MessageContentBlock list \<times> string list \<times> bool \<Rightarrow> ContentBlock option list
     \<Rightarrow> error + MessageContentBlock list \<times> string list \<times> bool" where
  "blockLoop acc [] = Inr acc"
| "blockLoop acc (None # bs) = Inl TypeError"
| "blockLoop acc (Some block # bs) =
     (case blockStep acc block of
        Inl e \<Rightarrow> Inl e
      | Inr acc' \<Rightarrow> blockLoop acc' bs)"

text \<open>\<open>parseAssistantMessage\<close>, lines 467 to 527.\<close>

definition parseAssistantMessage ::
  "(nat \<Rightarrow> string) \<Rightarrow> nat \<Rightarrow> JournalEntry \<Rightarrow> error + ParsedMessage option \<times> nat" where
  "parseAssistantMessage clock n entry =
     (case message_content entry of
        Some (CArray msgContent) \<Rightarrow>
          (case blockLoop ([], [], False) msgContent of
             Inl e \<Rightarrow> Inl e
           | Inr (blocks, textParts, hasTool) \<Rightarrow>
               Inr (if blocks = [] then (None, n)
                    else (let (ts, n') = timestampOrNow clock n entry
                          in (Some \<lparr>role = Assistant, content = join_nl textParts,
                                    contentBlocks = blocks, hasToolBlocks = hasTool,
                                    timestamp = ts\<rparr>, n'))))
      | _ \<Rightarrow> Inr (None, n))"

section \<open>The full pass\<close>

text \<open>\<open>if (parsed) messages.push(parsed)\<close>, with the clock reads of the call.\<close>

definition pushParsed :: "ParseState \<Rightarrow> Scan \<Rightarrow> ParsedMessage option \<times> nat \<Rightarrow> ParseState" where
  "pushParsed st s r =
     \<lparr>scan = s,
      p_messages = (case fst r of None \<Rightarrow> p_messages st | Some m \<Rightarrow> p_messages st @ [m]),
      clockReads = snd r\<rparr>"

text \<open>
  The body of the loop of \<open>parseClaudeSession\<close>, lines 365 to 404. A line on which
  \<open>JSON.parse\<close> throws, or that decodes to \<open>null\<close>, changes nothing. What the preview,
  \<open>parseUserMessage\<close> or \<open>parseAssistantMessage\<close> throws is caught by the \<open>catch\<close> of
  line 402: the statements before the throw have had their effect, the ones after it are
  skipped, and no message is pushed.
\<close>

definition parseLine :: "runtime \<Rightarrow> (nat \<Rightarrow> string) \<Rightarrow> ParseState \<Rightarrow> string \<Rightarrow> ParseState" where
  "parseLine rt clock st line =
     (case JSON_parse rt line of
        None \<Rightarrow> st
      | Some entry \<Rightarrow>
          (let s1 = trackTimestamp entry (scan st)
           in if e_type entry = Some ''user''
              then (let s2 = countUser entry s1
                    in case capturePreview entry (v_preview s2) of
                         Inl e \<Rightarrow> st\<lparr>scan := s2\<rparr>
                       | Inr p \<Rightarrow>
                           (case parseUserMessage clock (clockReads st) entry of
                              Inl e \<Rightarrow> st\<lparr>scan := s2\<lparr>v_preview := p\<rparr>\<rparr>
                            | Inr parsed \<Rightarrow> pushParsed st (s2\<lparr>v_preview := p\<rparr>) parsed))
              else if e_type entry = Some ''assistant''
              then (let s2 = s1\<lparr>v_assistantMessageCount := Suc (v_assistantMessageCount s1)\<rparr>
                    in case parseAssistantMessage clock (clockReads st) entry of
                         Inl e \<Rightarrow> st\<lparr>scan := s2\<rparr>
                       | Inr parsed \<Rightarrow> pushParsed st s2 parsed)
              else st\<lparr>scan := s1\<rparr>))"

definition initParse :: ParseState where
  "initParse = \<lparr>scan = initScan, p_messages = [], clockReads = 0\<rparr>"

text \<open>
  The search for the session file, lines 331 to 340: the first project directory that
  holds \<open>sessionId.jsonl\<close>, with the decoded name of that directory.
\<close>

fun findSessionFile ::
  "runtime \<Rightarrow> string \<Rightarrow> string \<Rightarrow> Dirent list \<Rightarrow> (string \<times> string) option" where
  "findSessionFile rt projectsDir sid [] = None"
| "findSessionFile rt projectsDir sid (projectDir # rest) =
     (if \<not> isDirectory projectDir then findSessionFile rt projectsDir sid rest
      else (let candidate = path_joins [projectsDir, name projectDir, sid @ ''.jsonl'']
            in if existsSync rt candidate
               then Some (candidate, decodeProjectPath (name projectDir))
               else findSessionFile rt projectsDir sid rest))"

text \<open>
  Lines 320 to 345 of \<open>parseClaudeSession\<close>: \<open>None\<close> where the function returns \<open>null\<close>
  before it reads a file.
\<close>

definition locateSession :: "runtime \<Rightarrow> string \<Rightarrow> (string \<times> string) option" where
  "locateSession rt sid =
     (let projectsDir = getClaudeProjectsDir rt
      in if \<not> existsSync rt projectsDir then None
         else (case readdirSync_withFileTypes rt projectsDir of
                 Inl e \<Rightarrow> None
               | Inr projectDirs \<Rightarrow> findSessionFile rt projectsDir sid projectDirs))"

text \<open>
  Lines 347 to 429 of \<open>parseClaudeSession\<close>. The call of \<open>readJsonlLines\<close> and the
  object literal of \<open>info\<close> are in no \<open>try\<close> block: what they throw leaves the function.
\<close>

definition parseSessionFile ::
  "runtime \<Rightarrow> (nat \<Rightarrow> string) \<Rightarrow> string \<Rightarrow> string \<Rightarrow> string
     \<Rightarrow> error + ParsedSession option" where
  "parseSessionFile rt clock filePath sid decodedPath =
     (case readJsonlLines rt filePath of
        Inl e \<Rightarrow> Inl e
      | Inr None \<Rightarrow> Inr None
      | Inr (Some (lines, stat)) \<Rightarrow>
          if lines = [] then Inr None
          else (let st = foldl (parseLine rt clock) initParse lines
                in if v_userMessageCount (scan st) = 0
                      \<and> v_assistantMessageCount (scan st) = 0
                   then Inr None
                   else (case makeInfo sid decodedPath stat (scan st) of
                           Inl e \<Rightarrow> Inl e
                         | Inr found \<Rightarrow>
                             Inr (Some \<lparr>info = found, messages = p_messages st\<rparr>))))"

text \<open>\<open>parseClaudeSession\<close>, lines 319 to 430.\<close>

definition parseClaudeSession ::
  "runtime \<Rightarrow> (nat \<Rightarrow> string) \<Rightarrow> string \<Rightarrow> error + ParsedSession option" where
  "parseClaudeSession rt clock sid =
     (case locateSession rt sid of
        None \<Rightarrow> Inr None
      | Some (filePath, decodedPath) \<Rightarrow> parseSessionFile rt clock filePath sid decodedPath)"

section \<open>Notions used in the statements\<close>

text \<open>The entries of a file in file order: the lines that decode, decoded.\<close>

definition decodedEntries :: "runtime \<Rightarrow> string list \<Rightarrow> JournalEntry list" where
  "decodedEntries rt lines = List.map_filter (JSON_parse rt) lines"

definition decodable :: "runtime \<Rightarrow> string \<Rightarrow> bool" where
  "decodable rt line = (case JSON_parse rt line of None \<Rightarrow> False | Some entry \<Rightarrow> True)"

text \<open>A qualifying event: an entry of type \<open>user\<close> or \<open>assistant\<close>.\<close>

definition qualifying :: "JournalEntry \<Rightarrow> bool" where
  "qualifying entry = (e_type entry = Some ''user'' \<or> e_type entry = Some ''assistant'')"

text \<open>The time stamps that the entries of a file carry, in file order.\<close>

definition fileStamps :: "runtime \<Rightarrow> string list \<Rightarrow> string list" where
  "fileStamps rt lines =
     filter (\<lambda>t. t \<noteq> []) (map (\<lambda>entry. or_empty (e_timestamp entry)) (decodedEntries rt lines))"

text \<open>
  The text of a user entry that the preview is cut from: a string content itself, or
  the text of the first fragment tagged \<open>text\<close> of a fragment list; empty otherwise,
  also where the search for that fragment throws.
\<close>

definition previewSource :: "JournalEntry \<Rightarrow> string" where
  "previewSource entry =
     (case message_content entry of
        Some (CString c) \<Rightarrow> c
      | Some (CArray bs) \<Rightarrow>
          (case find_text bs of
             Inr (Some b) \<Rightarrow> or_empty (cb_text b)
           | _ \<Rightarrow> [])
      | _ \<Rightarrow> [])"

text \<open>
  The extractable text of a user entry in the words of the specification: a string
  content itself, or the fragments tagged \<open>text\<close> of a fragment list joined by line
  feeds; and the preview that the specification states: the first 120 characters of
  the first non-empty extractable text of a user entry.
\<close>

definition extractableText :: "JournalEntry \<Rightarrow> string" where
  "extractableText entry =
     (case message_content entry of
        Some (CString c) \<Rightarrow> c
      | Some (CArray bs) \<Rightarrow> (case joinText bs of Inl e \<Rightarrow> [] | Inr joined \<Rightarrow> joined)
      | _ \<Rightarrow> [])"

definition userEntries :: "runtime \<Rightarrow> string list \<Rightarrow> JournalEntry list" where
  "userEntries rt lines = filter (\<lambda>entry. e_type entry = Some ''user'') (decodedEntries rt lines)"

definition statedPreview :: "runtime \<Rightarrow> string list \<Rightarrow> string option" where
  "statedPreview rt lines =
     map_option (take 120)
       (find (\<lambda>t. t \<noteq> []) (map extractableText (userEntries rt lines)))"

text \<open>
  The Message Reconstructor on one decoded entry, as the loop of \<open>parseClaudeSession\<close>
  calls it: \<open>parseUserMessage\<close> on a user entry, \<open>parseAssistantMessage\<close> on an
  assistant entry, nothing on any other entry. The result is the message produced, if
  any, with the number of clock reads; an entry on which the reconstructor throws
  produces no message. \<open>messagesOf\<close> is the sequence of the messages produced from a
  sequence of entries, in their order.
\<close>

definition reconstruct ::
  "(nat \<Rightarrow> string) \<Rightarrow> nat \<Rightarrow> JournalEntry \<Rightarrow> ParsedMessage option \<times> nat" where
  "reconstruct clock n entry =
     (case (if e_type entry = Some ''user'' then parseUserMessage clock n entry
            else if e_type entry = Some ''assistant'' then parseAssistantMessage clock n entry
            else Inr (None, n)) of
        Inl e \<Rightarrow> (None, n)
      | Inr produced \<Rightarrow> produced)"

fun messagesOf :: "(nat \<Rightarrow> string) \<Rightarrow> nat \<Rightarrow> JournalEntry list \<Rightarrow> ParsedMessage list" where
  "messagesOf clock n [] = []"
| "messagesOf clock n (entry # entries) =
     (case fst (reconstruct clock n entry) of
        None \<Rightarrow> messagesOf clock (snd (reconstruct clock n entry)) entries
      | Some m \<Rightarrow> m # messagesOf clock (snd (reconstruct clock n entry)) entries)"

text \<open>A message without its time stamp, and the message of one entry without it.\<close>

definition untimed :: "ParsedMessage \<Rightarrow> Role \<times> string \<times> MessageContentBlock list \<times> bool" where
  "untimed m = (role m, content m, contentBlocks m, hasToolBlocks m)"

definition entryMessage :: "JournalEntry \<Rightarrow> ParsedMessage option" where
  "entryMessage entry = fst (reconstruct (\<lambda>n. []) 0 entry)"

text \<open>
  The time stamps that \<open>createdAt\<close> and \<open>updatedAt\<close> are taken from: those of the
  entries or, when no entry carries one, the birth time and the modification time of the
  file. \<open>orderedStamps\<close> is the order stated between the two fields, read as
  \<open>listClaudeSessions\<close> reads a time stamp.
\<close>

definition stampSource :: "runtime \<Rightarrow> string list \<Rightarrow> Stats \<Rightarrow> string list" where
  "stampSource rt lines stat =
     (if fileStamps rt lines = [] then [birthtime stat, mtime stat] else fileStamps rt lines)"

definition orderedStamps :: "runtime \<Rightarrow> ClaudeSessionInfo \<Rightarrow> bool" where
  "orderedStamps rt i = (getTime rt (createdAt i) \<le> getTime rt (updatedAt i))"

text \<open>The preview of a session is the one that the specification states.\<close>

definition previewAsStated :: "runtime \<Rightarrow> string list \<Rightarrow> ClaudeSessionInfo \<Rightarrow> bool" where
  "previewAsStated rt lines i = (statedPreview rt lines = Some (preview i))"

text \<open>The parts of what \<open>parseClaudeSession\<close> returns.\<close>

definition resultInfo :: "error + ParsedSession option \<Rightarrow> error + ClaudeSessionInfo option" where
  "resultInfo r = map_sum id (map_option info) r"

definition resultMessages :: "error + ParsedSession option \<Rightarrow> ParsedMessage list" where
  "resultMessages r = (case r of Inr (Some s) \<Rightarrow> messages s | _ \<Rightarrow> [])"

text \<open>
  A run time in which a directory listing no longer names one file; everything else is
  as before.
\<close>

definition withoutFile :: "runtime \<Rightarrow> string \<Rightarrow> string \<Rightarrow> runtime" where
  "withoutFile rt dirPath f =
     rt\<lparr>readdirSync := (\<lambda>p. if p = dirPath
                               then map_sum id (filter (\<lambda>g. g \<noteq> f)) (readdirSync rt p)
                               else readdirSync rt p)\<rparr>"

section \<open>Example sessions\<close>

text \<open>
  A file system held in memory: the projects directory of the home directory \<open>/home/u\<close>
  holds the given project directories, each with its files (name, \<open>Stats\<close>, and the
  content or the error that reading gives). Every other path does not exist.
\<close>

definition memfs_files ::
  "(string \<times> (string \<times> Stats \<times> (error + string)) list) list
     \<Rightarrow> (string \<times> Stats \<times> (error + string)) list" where
  "memfs_files dirs =
     concat (map (\<lambda>(d, files).
        map (\<lambda>(f, st, text).
               (path_join (path_join ''/home/u/.claude/projects'' d) f, st, text)) files) dirs)"

definition memfs ::
  "(string \<times> (string \<times> Stats \<times> (error + string)) list) list
     \<Rightarrow> (string \<Rightarrow> JournalEntry option) \<Rightarrow> (string \<Rightarrow> int) \<Rightarrow> runtime" where
  "memfs dirs decode millis =
     \<lparr>homedir = ''/home/u'',
      existsSync = (\<lambda>p. p = ''/home/u/.claude/projects''
         \<or> p \<in> set (map (\<lambda>(d, files). path_join ''/home/u/.claude/projects'' d) dirs)
         \<or> p \<in> set (map fst (memfs_files dirs))),
      readdirSync_withFileTypes = (\<lambda>p.
         if p = ''/home/u/.claude/projects''
         then Inr (map (\<lambda>(d, files). \<lparr>name = d, isDirectory = True\<rparr>) dirs)
         else Inl ENOENT),
      readdirSync = (\<lambda>p.
         case map_of (map (\<lambda>(d, files).
                (path_join ''/home/u/.claude/projects'' d, map fst files)) dirs) p of
           None \<Rightarrow> Inl ENOENT
         | Some names \<Rightarrow> Inr names),
      statSync = (\<lambda>p.
         case map_of (memfs_files dirs) p of
           None \<Rightarrow> Inl ENOENT
         | Some (st, text) \<Rightarrow> Inr st),
      readFileSync = (\<lambda>p.
         case map_of (memfs_files dirs) p of
           None \<Rightarrow> Inl ENOENT
         | Some (st, text) \<Rightarrow> text),
      JSON_parse = decode,
      getTime = millis\<rparr>"

text \<open>Lines of session logs, and the entries they decode to.\<close>

definition line_queue :: string where
  \<open>line_queue =
     ''{"type":"queue-operation","operation":"dequeue","timestamp":"2026-01-15T10:00:00.000Z"}''\<close>

definition entry_queue :: JournalEntry where
  "entry_queue = \<lparr>e_type = Some ''queue-operation'',
     e_timestamp = Some ''2026-01-15T10:00:00.000Z'', e_cwd = None, e_gitBranch = None,
     e_version = None, e_message = None\<rparr>"

definition line_hello :: string where
  \<open>line_hello =
     ''{"cwd":"/home/user/myproject","version":"2.1.34","gitBranch":"main","type":"user","message":{"role":"user","content":"Hello, can you help me?"},"timestamp":"2026-01-15T10:00:01.000Z"}''\<close>

definition entry_hello :: JournalEntry where
  "entry_hello = \<lparr>e_type = Some ''user'',
     e_timestamp = Some ''2026-01-15T10:00:01.000Z'', e_cwd = Some (CwdString ''/home/user/myproject''),
     e_gitBranch = Some ''main'', e_version = Some ''2.1.34'',
     e_message = Some \<lparr>m_content = Some (CString ''Hello, can you help me?'')\<rparr>\<rparr>"

definition line_reply :: string where
  \<open>line_reply =
     ''{"type":"assistant","message":{"role":"assistant","content":[{"type":"text","text":"Of course!"}]},"timestamp":"2026-01-15T10:00:02.000Z"}''\<close>

definition entry_reply :: JournalEntry where
  "entry_reply = \<lparr>e_type = Some ''assistant'',
     e_timestamp = Some ''2026-01-15T10:00:02.000Z'', e_cwd = None, e_gitBranch = None,
     e_version = None,
     e_message = Some \<lparr>m_content = Some (CArray
       [Some (ContentBlock (Some ''text'') (Some ''Of course!'') None None None None None None)])\<rparr>\<rparr>"

definition line_untimed :: string where
  \<open>line_untimed = ''{"type":"user","message":{"role":"user","content":"hi"}}''\<close>

definition entry_untimed :: JournalEntry where
  "entry_untimed = \<lparr>e_type = Some ''user'', e_timestamp = None, e_cwd = None,
     e_gitBranch = None, e_version = None,
     e_message = Some \<lparr>m_content = Some (CString ''hi'')\<rparr>\<rparr>"

definition line_old :: string where
  \<open>line_old =
     ''{"cwd":"/home/user/myproject","version":"2.1.34","gitBranch":"main","type":"user","message":{"role":"user","content":"Old message"},"timestamp":"2025-01-01T00:00:00.000Z"}''\<close>

definition entry_old :: JournalEntry where
  "entry_old = \<lparr>e_type = Some ''user'',
     e_timestamp = Some ''2025-01-01T00:00:00.000Z'', e_cwd = Some (CwdString ''/home/user/myproject''),
     e_gitBranch = Some ''main'', e_version = Some ''2.1.34'',
     e_message = Some \<lparr>m_content = Some (CString ''Old message'')\<rparr>\<rparr>"

definition line_fragments :: string where
  \<open>line_fragments =
     ''{"type":"user","message":{"role":"user","content":[{"type":"text","text":"a"},{"type":"text","text":"b"}]},"timestamp":"2026-01-15T10:00:01.000Z"}''\<close>

definition entry_fragments :: JournalEntry where
  "entry_fragments = \<lparr>e_type = Some ''user'',
     e_timestamp = Some ''2026-01-15T10:00:01.000Z'', e_cwd = None, e_gitBranch = None,
     e_version = None,
     e_message = Some \<lparr>m_content = Some (CArray
       [Some (ContentBlock (Some ''text'') (Some ''a'') None None None None None None),
        Some (ContentBlock (Some ''text'') (Some ''b'') None None None None None None)])\<rparr>\<rparr>"

definition line_blank :: string where
  \<open>line_blank =
     ''{"type":"user","message":{"role":"user","content":"   "},"timestamp":"2026-01-15T10:00:01.000Z"}''\<close>

definition entry_blank :: JournalEntry where
  "entry_blank = \<lparr>e_type = Some ''user'',
     e_timestamp = Some ''2026-01-15T10:00:01.000Z'', e_cwd = None, e_gitBranch = None,
     e_version = None, e_message = Some \<lparr>m_content = Some (CString ''   '')\<rparr>\<rparr>"

text \<open>An assistant line whose content holds \<open>null\<close> in the place of a block.\<close>

definition line_nullblock :: string where
  \<open>line_nullblock =
     ''{"type":"assistant","message":{"role":"assistant","content":[null]},"timestamp":"2026-01-15T10:00:03.000Z"}''\<close>

definition entry_nullblock :: JournalEntry where
  "entry_nullblock = \<lparr>e_type = Some ''assistant'',
     e_timestamp = Some ''2026-01-15T10:00:03.000Z'', e_cwd = None, e_gitBranch = None,
     e_version = None, e_message = Some \<lparr>m_content = Some (CArray [None])\<rparr>\<rparr>"

text \<open>A user line whose \<open>cwd\<close> is a number.\<close>

definition line_badcwd :: string where
  \<open>line_badcwd =
     ''{"type":"user","cwd":5,"message":{"role":"user","content":"hi"},"timestamp":"2026-01-15T10:00:01.000Z"}''\<close>

definition entry_badcwd :: JournalEntry where
  "entry_badcwd = \<lparr>e_type = Some ''user'',
     e_timestamp = Some ''2026-01-15T10:00:01.000Z'', e_cwd = Some CwdOther,
     e_gitBranch = None, e_version = None,
     e_message = Some \<lparr>m_content = Some (CString ''hi'')\<rparr>\<rparr>"

text \<open>\<open>JSON.parse\<close> on these lines; it throws on every other line.\<close>

definition example_parse :: "string \<Rightarrow> JournalEntry option" where
  "example_parse = map_of
     [(line_queue, entry_queue), (line_hello, entry_hello), (line_reply, entry_reply),
      (line_untimed, entry_untimed), (line_old, entry_old),
      (line_fragments, entry_fragments),
      (line_blank, entry_blank), (line_nullblock, entry_nullblock),
      (line_badcwd, entry_badcwd)]"

text \<open>\<open>new Date(s).getTime()\<close> on the time stamps of the examples.\<close>

definition example_getTime :: "string \<Rightarrow> int" where
  "example_getTime s =
     (case map_of
        [(''2025-01-01T00:00:00.000Z'', 1735689600000),
         (''2026-01-10T08:00:00.000Z'', 1768032000000),
         (''2026-01-15T10:00:00.000Z'', 1768471200000),
         (''2026-01-15T10:00:01.000Z'', 1768471201000),
         (''2026-01-15T10:00:02.000Z'', 1768471202000),
         (''2026-01-15T10:00:03.000Z'', 1768471203000),
         (''2026-01-20T08:00:00.000Z'', 1768896000000)] s of
        None \<Rightarrow> 0
      | Some t \<Rightarrow> t)"

definition example_stat :: "nat \<Rightarrow> Stats" where
  "example_stat n = \<lparr>st_size = n, birthtime = ''2026-01-10T08:00:00.000Z'',
     mtime = ''2026-01-20T08:00:00.000Z''\<rparr>"

text \<open>
  The project directory \<open>-home-user-myproject\<close> with one entry: its name, its size, and
  the content or the error that reading it gives.
\<close>

definition one_session :: "string \<Rightarrow> nat \<Rightarrow> error + string \<Rightarrow> runtime" where
  "one_session fileName n text =
     memfs [(''-home-user-myproject'', [(fileName, example_stat n, text)])]
       example_parse example_getTime"

text \<open>A file with the given lines, each ended by a line feed.\<close>

definition file_of :: "string list \<Rightarrow> error + string" where
  "file_of ls = Inr (concat (map (\<lambda>l. l @ [CHR 0x0A]) ls))"

text \<open>The path of an entry of that project directory.\<close>

definition example_path :: "string \<Rightarrow> string" where
  "example_path f =
     path_join (path_join ''/home/u/.claude/projects'' ''-home-user-myproject'') f"

text \<open>A file name: not empty, not \<open>.\<close> or \<open>..\<close>, and without a separator.\<close>

definition simple_name :: "string \<Rightarrow> bool" where
  "simple_name f = (f \<noteq> [] \<and> f \<noteq> ''.'' \<and> f \<noteq> ''..'' \<and> CHR ''/'' \<notin> set f)"

text \<open>Two lines that do not decode.\<close>

definition line_garbage :: string where
  "line_garbage = ''this is not valid json''"

definition line_truncated :: string where
  \<open>line_truncated = ''{"incomplete": true''\<close>

text \<open>
  The session of the specification's end-to-end example (a lifecycle marker, a user
  line, an assistant line), and its listing entry.
\<close>

definition hello_session :: runtime where
  "hello_session = one_session ''s1.jsonl'' 300 (file_of [line_queue, line_hello, line_reply])"

definition hello_info :: ClaudeSessionInfo where
  "hello_info = \<lparr>sessionId = ''s1'', projectPath = ''/home/user/myproject'',
     projectName = ''myproject'', cwd = ''/home/user/myproject'', gitBranch = ''main'',
     version = ''2.1.34'', preview = ''Hello, can you help me?'', userMessageCount = 1,
     assistantMessageCount = 1, createdAt = ''2026-01-15T10:00:00.000Z'',
     updatedAt = ''2026-01-15T10:00:02.000Z'', fileSize = 300\<rparr>"

text \<open>
  The session of the unit test on malformed lines, followed by an assistant line and an
  assistant line with a \<open>null\<close> block; and the same session without the two lines that
  do not decode.
\<close>

definition noisy_lines :: "string list" where
  "noisy_lines =
     [line_queue, line_garbage, line_hello, line_truncated, line_reply, line_nullblock]"

definition valid_lines :: "string list" where
  "valid_lines = [line_queue, line_hello, line_reply, line_nullblock]"

definition noisy_session :: runtime where
  "noisy_session = one_session ''s1.jsonl'' 300 (file_of noisy_lines)"

definition valid_session :: runtime where
  "valid_session = one_session ''s1.jsonl'' 300 (file_of valid_lines)"

definition clock_a :: "nat \<Rightarrow> string" where
  "clock_a n = ''2026-11-03T09:00:00.000Z''"

definition clock_b :: "nat \<Rightarrow> string" where
  "clock_b n = ''2026-11-03T09:00:07.000Z''"

section \<open>Lemmas\<close>

subsection \<open>The two passes compute the same metadata\<close>

lemma scan_parseLine: "scan (parseLine rt clock st l) = extractLine rt (scan st) l"
  by (simp add: parseLine_def extractLine_def scanUser_def pushParsed_def Let_def
      split: option.splits sum.splits)

lemma scan_parseLoop:
  "scan (foldl (parseLine rt clock) st lines) = foldl (extractLine rt) (scan st) lines"
  by (induction lines arbitrary: st) (simp_all add: scan_parseLine)

lemma parse_info_extract:
  "resultInfo (parseSessionFile rt clock fp sid dp) = extractSessionInfo rt fp sid dp"
  by (simp add: resultInfo_def parseSessionFile_def extractSessionInfo_def scan_parseLoop Let_def initParse_def
      split: sum.splits option.splits prod.splits)

lemma set_listFile:
  "i \<in> set (listFile rt dirPath dp f) \<Longrightarrow> \<exists>fp sid. extractSessionInfo rt fp sid dp = Inr (Some i)"
  by (auto simp: listFile_def Let_def split: sum.splits option.splits)

lemma listed_info:
  "i \<in> set (listClaudeSessions rt) \<Longrightarrow> \<exists>fp sid dp. extractSessionInfo rt fp sid dp = Inr (Some i)"
  apply (auto simp: listClaudeSessions_def sortSessions_def listProject_def Let_def
       split: if_splits sum.splits)
  by (blast dest: set_listFile)

lemma produced_info:
  assumes "i \<in> set (listClaudeSessions rt)
           \<or> resultInfo (parseClaudeSession rt clock sid) = Inr (Some i)"
  shows "\<exists>fp sid' dp. extractSessionInfo rt fp sid' dp = Inr (Some i)"
  using assms
proof
  assume "i \<in> set (listClaudeSessions rt)"
  then show ?thesis by (rule listed_info)
next
  assume a: "resultInfo (parseClaudeSession rt clock sid) = Inr (Some i)"
  then obtain fp dp where "resultInfo (parseSessionFile rt clock fp sid dp) = Inr (Some i)"
    by (auto simp: parseClaudeSession_def resultInfo_def split: option.splits)
  then show ?thesis by (auto simp: parse_info_extract)
qed

lemma extract_Some:
  assumes "extractSessionInfo rt fp sid dp = Inr (Some i)"
    and "readJsonlLines rt fp = Inr (Some (lines, stat))"
  shows "makeInfo sid dp stat (foldl (extractLine rt) initScan lines) = Inr i"
  using assms by (simp add: extractSessionInfo_def Let_def split: if_splits sum.splits)

lemma makeInfo_fields:
  assumes "makeInfo sid dp stat s = Inr i"
  shows "createdAt i = (if v_createdAt s \<noteq> [] then v_createdAt s else birthtime stat)"
    and "updatedAt i = (if v_updatedAt s \<noteq> [] then v_updatedAt s else mtime stat)"
    and "preview i = (if v_preview s \<noteq> [] then v_preview s else ''(no preview)'')"
    and "userMessageCount i = v_userMessageCount s"
    and "assistantMessageCount i = v_assistantMessageCount s"
    and "sessionId i = sid"
    and "fileSize i = st_size stat"
  using assms by (auto simp: makeInfo_def split: cwd_value.splits if_splits)

subsection \<open>What the metadata pass computes\<close>

lemma decodedEntries_Nil: "decodedEntries rt [] = []"
  by (simp add: decodedEntries_def)

lemma decodedEntries_Cons:
  "decodedEntries rt (l # ls) =
     (case JSON_parse rt l of None \<Rightarrow> decodedEntries rt ls | Some e \<Rightarrow> e # decodedEntries rt ls)"
  by (simp add: decodedEntries_def split: option.splits)

lemma scanUser_fields:
  "v_createdAt (scanUser e s) = v_createdAt s"
  "v_updatedAt (scanUser e s) = v_updatedAt s"
  "v_userMessageCount (scanUser e s) = Suc (v_userMessageCount s)"
  "v_assistantMessageCount (scanUser e s) = v_assistantMessageCount s"
  by (simp_all add: scanUser_def countUser_def captureFields_def Let_def split: sum.splits)

lemma extractLine_createdAt:
  "v_createdAt (extractLine rt s l) =
     (if v_createdAt s \<noteq> [] then v_createdAt s
      else (case JSON_parse rt l of None \<Rightarrow> [] | Some e \<Rightarrow> or_empty (e_timestamp e)))"
  by (simp add: extractLine_def trackTimestamp_def scanUser_fields Let_def
      truthy_def or_empty_def split: option.splits)

lemma extractLine_updatedAt:
  "v_updatedAt (extractLine rt s l) =
     (case JSON_parse rt l of None \<Rightarrow> v_updatedAt s
      | Some e \<Rightarrow> if or_empty (e_timestamp e) \<noteq> [] then or_empty (e_timestamp e) else v_updatedAt s)"
  by (simp add: extractLine_def trackTimestamp_def scanUser_fields Let_def
      truthy_def or_empty_def split: option.splits)

lemma extractLoop_createdAt:
  "v_createdAt (foldl (extractLine rt) s lines) =
     (if v_createdAt s \<noteq> [] then v_createdAt s
      else (case fileStamps rt lines of [] \<Rightarrow> [] | t # ts \<Rightarrow> t))"
proof (induction lines arbitrary: s)
  case Nil
  show ?case by (simp add: fileStamps_def decodedEntries_Nil)
next
  case (Cons l ls)
  show ?case
    by (simp add: Cons.IH extractLine_createdAt fileStamps_def decodedEntries_Cons
        split: option.splits)
qed

lemma extractLoop_updatedAt:
  "v_updatedAt (foldl (extractLine rt) s lines) =
     (if fileStamps rt lines = [] then v_updatedAt s else last (fileStamps rt lines))"
proof (induction lines arbitrary: s)
  case Nil
  show ?case by (simp add: fileStamps_def decodedEntries_Nil)
next
  case (Cons l ls)
  show ?case
    by (simp add: Cons.IH extractLine_updatedAt fileStamps_def decodedEntries_Cons
        split: option.splits)
qed

lemma fileStamps_truthy: "t \<in> set (fileStamps rt lines) \<Longrightarrow> t \<noteq> []"
  by (simp add: fileStamps_def)

lemma stampSource_nonempty: "stampSource rt lines stat \<noteq> []"
  by (simp add: stampSource_def)

lemma capturePreview_empty:
  "(case capturePreview e [] of Inl x \<Rightarrow> [] | Inr p \<Rightarrow> p) = take 120 (previewSource e)"
  by (simp add: capturePreview_def previewSource_def truthy_def or_empty_def
      split: option.splits content_of.splits sum.splits)

lemma capturePreview_set: "cur \<noteq> [] \<Longrightarrow> capturePreview e cur = Inr cur"
  by (simp add: capturePreview_def)

lemma scanUser_preview:
  "v_preview (scanUser e s) =
     (if v_preview s \<noteq> [] then v_preview s else take 120 (previewSource e))"
proof (cases "v_preview s = []")
  case True
  then have p: "v_preview (countUser e s) = []"
    by (simp add: countUser_def captureFields_def)
  show ?thesis
    using capturePreview_empty [of e] True
    by (simp add: scanUser_def Let_def p split: sum.splits)
next
  case False
  then have p: "v_preview (countUser e s) = v_preview s" "v_preview (countUser e s) \<noteq> []"
    by (simp_all add: countUser_def captureFields_def)
  show ?thesis
    using False by (simp add: scanUser_def Let_def capturePreview_set p(1))
qed

lemma extractLine_preview:
  "v_preview (extractLine rt s l) =
     (if v_preview s \<noteq> [] then v_preview s
      else (case JSON_parse rt l of None \<Rightarrow> []
            | Some e \<Rightarrow> if e_type e = Some ''user'' then take 120 (previewSource e) else []))"
  by (simp add: extractLine_def trackTimestamp_def scanUser_preview Let_def
      split: option.splits)

lemma userEntries_Nil: "userEntries rt [] = []"
  by (simp add: userEntries_def decodedEntries_Nil)

lemma userEntries_Cons:
  "userEntries rt (l # ls) =
     (case JSON_parse rt l of None \<Rightarrow> userEntries rt ls
      | Some e \<Rightarrow> if e_type e = Some ''user'' then e # userEntries rt ls else userEntries rt ls)"
  by (simp add: userEntries_def decodedEntries_Cons split: option.splits)

lemma extractLoop_preview:
  "v_preview (foldl (extractLine rt) s lines) =
     (if v_preview s \<noteq> [] then v_preview s
      else (case find (\<lambda>t. t \<noteq> []) (map previewSource (userEntries rt lines)) of
              None \<Rightarrow> [] | Some t \<Rightarrow> take 120 t))"
proof (induction lines arbitrary: s)
  case Nil
  show ?case by (simp add: userEntries_Nil)
next
  case (Cons l ls)
  show ?case
    by (simp add: Cons.IH extractLine_preview userEntries_Cons split: option.splits)
qed

lemma extractLoop_preview_kept:
  "v_preview s \<noteq> [] \<Longrightarrow> v_preview (foldl (extractLine rt) s later) = v_preview s"
  by (simp add: extractLoop_preview)

lemma extractLine_counts:
  "v_userMessageCount (extractLine rt s l) + v_assistantMessageCount (extractLine rt s l) =
     v_userMessageCount s + v_assistantMessageCount s
       + (case JSON_parse rt l of None \<Rightarrow> 0 | Some e \<Rightarrow> if qualifying e then 1 else 0)"
  by (simp add: extractLine_def trackTimestamp_def scanUser_fields Let_def
      qualifying_def split: option.splits)

lemma extractLoop_counts:
  "v_userMessageCount (foldl (extractLine rt) s lines)
     + v_assistantMessageCount (foldl (extractLine rt) s lines) =
   v_userMessageCount s + v_assistantMessageCount s
     + length (filter qualifying (decodedEntries rt lines))"
proof (induction lines arbitrary: s)
  case Nil
  show ?case by (simp add: decodedEntries_Nil)
next
  case (Cons l ls)
  show ?case
    by (simp add: Cons.IH extractLine_counts decodedEntries_Cons split: option.splits)
qed

lemma extract_no_qualifying:
  assumes "readJsonlLines rt fp = Inr (Some (lines, stat))"
    and "filter qualifying (decodedEntries rt lines) = []"
  shows "extractSessionInfo rt fp sid dp = Inr None"
  using extractLoop_counts [of rt initScan lines]
  by (simp add: extractSessionInfo_def assms Let_def initScan_def)

lemma extract_too_large:
  assumes "statSync rt fp = Inr stat" and "st_size stat > MAX_FILE_SIZE"
  shows "extractSessionInfo rt fp sid dp = Inr None"
  by (simp add: extractSessionInfo_def readJsonlLines_def assms)

lemma parse_None:
  "extractSessionInfo rt fp sid dp = Inr None \<Longrightarrow> parseSessionFile rt clock fp sid dp = Inr None"
  using parse_info_extract [of rt clock fp sid dp]
  by (cases "parseSessionFile rt clock fp sid dp") (auto simp: resultInfo_def)

subsection \<open>Lines that do not decode\<close>

lemma parseLine_undecodable: "\<not> decodable rt l \<Longrightarrow> parseLine rt clock st l = st"
  by (simp add: parseLine_def decodable_def split: option.splits)

lemma extractLine_undecodable: "\<not> decodable rt l \<Longrightarrow> extractLine rt s l = s"
  by (simp add: extractLine_def decodable_def split: option.splits)

lemma parseLoop_filter:
  "foldl (parseLine rt clock) st (filter (decodable rt) lines) = foldl (parseLine rt clock) st lines"
  by (induction lines arbitrary: st) (simp_all add: parseLine_undecodable)

lemma extractLoop_filter:
  "foldl (extractLine rt) s (filter (decodable rt) lines) = foldl (extractLine rt) s lines"
  by (induction lines arbitrary: s) (simp_all add: extractLine_undecodable)

lemma decodedEntries_filter:
  "decodedEntries rt (filter (decodable rt) lines) = decodedEntries rt lines"
  by (induction lines) (simp_all add: decodedEntries_Nil decodedEntries_Cons decodable_def split: option.splits)

lemma parseSessionFile_lines:
  assumes "JSON_parse rt' = JSON_parse rt"
    and "readJsonlLines rt fp = Inr (Some (lines, stat))"
    and "readJsonlLines rt' fp = Inr (Some (filter (decodable rt) lines, stat))"
  shows "parseSessionFile rt' clock fp sid dp = parseSessionFile rt clock fp sid dp"
proof -
  have pl: "parseLine rt' clock = parseLine rt clock"
    by (simp add: parseLine_def assms(1) fun_eq_iff)
  have none: "filter (decodable rt) lines = [] \<Longrightarrow> foldl (parseLine rt clock) initParse lines = initParse"
    using parseLoop_filter [of rt clock initParse lines] by simp
  show ?thesis
    using none
    by (simp add: parseSessionFile_def assms(2,3) pl parseLoop_filter)
       (simp add: initParse_def initScan_def)
qed

subsection \<open>Messages and the clock\<close>

lemma find_text_throws: "find_text bs = Inl e \<Longrightarrow> filter_text bs = Inl TypeError"
  by (induction bs rule: find_text.induct) (simp_all split: if_splits)

lemma capturePreview_throws:
  "capturePreview entry cur = Inl e \<Longrightarrow> parseUserMessage clock n entry = Inl TypeError"
  by (auto simp: capturePreview_def parseUserMessage_def joinText_def find_text_throws
      split: if_splits option.splits content_of.splits sum.splits)

lemma reconstruct_user:
  "e_type entry = Some ''user'' \<Longrightarrow>
   reconstruct clock n entry
     = (case parseUserMessage clock n entry of Inl e \<Rightarrow> (None, n) | Inr produced \<Rightarrow> produced)"
  by (simp add: reconstruct_def)

lemma reconstruct_assistant:
  "e_type entry = Some ''assistant'' \<Longrightarrow>
   reconstruct clock n entry
     = (case parseAssistantMessage clock n entry of Inl e \<Rightarrow> (None, n)
        | Inr produced \<Rightarrow> produced)"
  by (simp add: reconstruct_def)

lemma reconstruct_other:
  "e_type entry \<noteq> Some ''user'' \<Longrightarrow> e_type entry \<noteq> Some ''assistant'' \<Longrightarrow>
   reconstruct clock n entry = (None, n)"
  by (simp add: reconstruct_def)

lemma parseLine_reconstruct:
  assumes "JSON_parse rt l = Some entry"
  shows "p_messages (parseLine rt clock st l)
           = p_messages st @ (case fst (reconstruct clock (clockReads st) entry) of
                                None \<Rightarrow> [] | Some m \<Rightarrow> [m])"
    and "clockReads (parseLine rt clock st l) = snd (reconstruct clock (clockReads st) entry)"
proof -
  consider (user) "e_type entry = Some ''user''"
    | (assistant) "e_type entry = Some ''assistant''"
    | (other) "e_type entry \<noteq> Some ''user''" "e_type entry \<noteq> Some ''assistant''"
    by blast
  then have "p_messages (parseLine rt clock st l)
           = p_messages st @ (case fst (reconstruct clock (clockReads st) entry) of
                                None \<Rightarrow> [] | Some m \<Rightarrow> [m])
      \<and> clockReads (parseLine rt clock st l) = snd (reconstruct clock (clockReads st) entry)"
  proof cases
    case user
    show ?thesis
    proof (cases "capturePreview entry (v_preview (countUser entry (trackTimestamp entry (scan st))))")
      case (Inl e)
      then show ?thesis
        using capturePreview_throws [OF Inl, of clock "clockReads st"]
        by (simp add: parseLine_def assms user Let_def reconstruct_user)
    next
      case (Inr p)
      then show ?thesis
        by (simp add: parseLine_def assms user Let_def reconstruct_user pushParsed_def
            split: sum.splits option.splits)
    qed
  next
    case assistant
    then show ?thesis
      by (simp add: parseLine_def assms Let_def reconstruct_assistant pushParsed_def
          split: sum.splits option.splits)
  next
    case other
    then show ?thesis
      by (simp add: parseLine_def assms Let_def reconstruct_other)
  qed
  then show "p_messages (parseLine rt clock st l)
           = p_messages st @ (case fst (reconstruct clock (clockReads st) entry) of
                                None \<Rightarrow> [] | Some m \<Rightarrow> [m])"
    and "clockReads (parseLine rt clock st l) = snd (reconstruct clock (clockReads st) entry)"
    by simp_all
qed

lemma parseLoop_messagesOf:
  "p_messages (foldl (parseLine rt clock) st lines)
     = p_messages st @ messagesOf clock (clockReads st) (decodedEntries rt lines)"
proof (induction lines arbitrary: st)
  case Nil
  show ?case by (simp add: decodedEntries_Nil)
next
  case (Cons l ls)
  show ?case
  proof (cases "JSON_parse rt l")
    case None
    then have "parseLine rt clock st l = st"
      by (simp add: parseLine_def)
    then show ?thesis
      using None by (simp add: Cons.IH decodedEntries_Cons)
  next
    case (Some entry)
    show ?thesis
      by (simp add: Cons.IH decodedEntries_Cons Some parseLine_reconstruct [OF Some]
          split: option.splits)
  qed
qed

lemma untimed_userMessage:
  "map_option untimed (fst (userMessage clock n e t)) = map_option untimed (fst (userMessage clock' n' e t))"
  by (simp add: userMessage_def untimed_def Let_def split: prod.splits)

lemma untimed_parseUserMessage:
  "map_sum id (\<lambda>r. map_option untimed (fst r)) (parseUserMessage clock n e)
     = map_sum id (\<lambda>r. map_option untimed (fst r)) (parseUserMessage clock' n' e)"
  by (simp add: parseUserMessage_def untimed_userMessage [of clock n e _ clock' n']
      split: option.splits content_of.splits sum.splits)

lemma untimed_parseAssistantMessage:
  "map_sum id (\<lambda>r. map_option untimed (fst r)) (parseAssistantMessage clock n e)
     = map_sum id (\<lambda>r. map_option untimed (fst r)) (parseAssistantMessage clock' n' e)"
  by (simp add: parseAssistantMessage_def untimed_def Let_def
      split: option.splits content_of.splits prod.splits sum.splits)

lemma untimed_case_sum:
  "map_sum id (\<lambda>r. map_option untimed (fst r)) a = map_sum id (\<lambda>r. map_option untimed (fst r)) b
   \<Longrightarrow> map_option untimed (fst (case a of Inl e \<Rightarrow> (None, n) | Inr produced \<Rightarrow> produced))
       = map_option untimed (fst (case b of Inl e \<Rightarrow> (None, n') | Inr produced \<Rightarrow> produced))"
  by (cases a; cases b) simp_all

lemma untimed_reconstruct:
  "map_option untimed (fst (reconstruct clock n e))
     = map_option untimed (fst (reconstruct clock' n' e))"
proof -
  consider (user) "e_type e = Some ''user''"
    | (assistant) "e_type e = Some ''assistant''"
    | (other) "e_type e \<noteq> Some ''user''" "e_type e \<noteq> Some ''assistant''"
    by blast
  then show ?thesis
  proof cases
    case user
    then show ?thesis
      by (simp add: reconstruct_user untimed_case_sum [OF untimed_parseUserMessage])
  next
    case assistant
    then show ?thesis
      by (simp add: reconstruct_assistant untimed_case_sum [OF untimed_parseAssistantMessage])
  next
    case other
    then show ?thesis
      by (simp add: reconstruct_other)
  qed
qed

lemma untimed_messagesOf:
  "map untimed (messagesOf clock n entries) = map untimed (List.map_filter entryMessage entries)"
proof (induction entries arbitrary: n)
  case Nil
  show ?case by (simp add: map_filter_simps)
next
  case (Cons e es)
  show ?case
    using untimed_reconstruct [of clock n e "\<lambda>n. []" 0]
    by (cases "fst (reconstruct clock n e)"; cases "fst (reconstruct (\<lambda>n. []) 0 e)")
       (simp_all add: Cons.IH map_filter_simps entryMessage_def)
qed

lemma parseLoop_messages:
  "map untimed (p_messages (foldl (parseLine rt clock) st lines)) =
     map untimed (p_messages st)
       @ map untimed (List.map_filter entryMessage (decodedEntries rt lines))"
  by (simp add: parseLoop_messagesOf untimed_messagesOf)

lemma untimed_parseSessionFile:
  "map untimed (resultMessages (parseSessionFile rt clock fp sid dp))
     = map untimed (resultMessages (parseSessionFile rt clock' fp sid dp))"
  by (simp add: parseSessionFile_def resultMessages_def Let_def scan_parseLoop
      parseLoop_messages initParse_def split: sum.splits option.splits prod.splits)

lemma message_timestamp:
  assumes "parseUserMessage clock n entry = Inr (Some m, k)
           \<or> parseAssistantMessage clock n entry = Inr (Some m, k)"
  shows "timestamp m = (if truthy (e_timestamp entry) then or_empty (e_timestamp entry)
                        else clock n)"
  using assms
proof
  assume "parseUserMessage clock n entry = Inr (Some m, k)"
  then show ?thesis
    by (auto simp: parseUserMessage_def userMessage_def timestampOrNow_def
        split: option.splits content_of.splits if_splits sum.splits)
next
  assume "parseAssistantMessage clock n entry = Inr (Some m, k)"
  then show ?thesis
    by (auto simp: parseAssistantMessage_def timestampOrNow_def
        split: option.splits content_of.splits if_splits prod.splits sum.splits)
qed

lemma timed_parseUserMessage:
  "truthy (e_timestamp e) \<Longrightarrow> parseUserMessage clock n e = parseUserMessage clock' n e"
  by (simp add: parseUserMessage_def userMessage_def timestampOrNow_def
      split: option.splits content_of.splits sum.splits)

lemma timed_parseAssistantMessage:
  "truthy (e_timestamp e) \<Longrightarrow> parseAssistantMessage clock n e = parseAssistantMessage clock' n e"
  by (simp add: parseAssistantMessage_def timestampOrNow_def
      split: option.splits content_of.splits prod.splits sum.splits)

lemma timed_parseLine:
  "(case JSON_parse rt l of None \<Rightarrow> True | Some e \<Rightarrow> if qualifying e then truthy (e_timestamp e) else True)
     \<Longrightarrow> parseLine rt clock st l = parseLine rt clock' st l"
proof (cases "JSON_parse rt l")
  case None
  then show ?thesis by (simp add: parseLine_def)
next
  case (Some e)
  assume "case JSON_parse rt l of None \<Rightarrow> True
          | Some e \<Rightarrow> if qualifying e then truthy (e_timestamp e) else True"
  then have t: "qualifying e \<Longrightarrow> truthy (e_timestamp e)"
    by (simp add: Some)
  consider (user) "e_type e = Some ''user''"
    | (assistant) "e_type e = Some ''assistant''"
    | (other) "e_type e \<noteq> Some ''user''" "e_type e \<noteq> Some ''assistant''"
    by blast
  then show ?thesis
  proof cases
    case user
    then have "parseUserMessage clock (clockReads st) e = parseUserMessage clock' (clockReads st) e"
      using t by (intro timed_parseUserMessage) (simp add: qualifying_def)
    then show ?thesis
      by (simp add: parseLine_def Some user Let_def split: sum.splits)
  next
    case assistant
    then have "parseAssistantMessage clock (clockReads st) e
                 = parseAssistantMessage clock' (clockReads st) e"
      using t by (intro timed_parseAssistantMessage) (simp add: qualifying_def)
    then show ?thesis
      by (simp add: parseLine_def Some assistant Let_def split: sum.splits)
  next
    case other
    then show ?thesis
      by (simp add: parseLine_def Some Let_def)
  qed
qed

lemma timed_parseLoop:
  "list_all (\<lambda>e. truthy (e_timestamp e)) (filter qualifying (decodedEntries rt lines))
     \<Longrightarrow> foldl (parseLine rt clock) st lines = foldl (parseLine rt clock') st lines"
proof (induction lines arbitrary: st)
  case Nil
  show ?case by simp
next
  case (Cons l ls)
  from Cons.prems have step: "parseLine rt clock st l = parseLine rt clock' st l"
    by (intro timed_parseLine) (simp add: decodedEntries_Cons split: option.splits if_splits)
  from Cons.prems have rest:
    "list_all (\<lambda>e. truthy (e_timestamp e)) (filter qualifying (decodedEntries rt ls))"
    by (simp add: decodedEntries_Cons split: option.splits if_splits)
  show ?case by (simp add: step Cons.IH [OF rest])
qed

lemma timed_parseSessionFile:
  assumes "readJsonlLines rt fp = Inr (Some (lines, stat))"
    and "list_all (\<lambda>e. truthy (e_timestamp e)) (filter qualifying (decodedEntries rt lines))"
  shows "parseSessionFile rt clock fp sid dp = parseSessionFile rt clock' fp sid dp"
  by (simp add: parseSessionFile_def assms(1) timed_parseLoop [OF assms(2), of clock _ clock'])

lemma parseSessionFile_result:
  assumes "readJsonlLines rt fp = Inr (Some (lines, stat))"
  shows "parseSessionFile rt clock fp sid dp =
     (if filter qualifying (decodedEntries rt lines) = [] then Inr None
      else (case makeInfo sid dp stat (foldl (extractLine rt) initScan lines) of
              Inl e \<Rightarrow> Inl e
            | Inr found \<Rightarrow>
                Inr (Some \<lparr>info = found,
                           messages = messagesOf clock 0 (decodedEntries rt lines)\<rparr>)))"
proof -
  have c: "v_userMessageCount (foldl (extractLine rt) initScan lines) = 0
           \<and> v_assistantMessageCount (foldl (extractLine rt) initScan lines) = 0
         \<longleftrightarrow> filter qualifying (decodedEntries rt lines) = []"
  proof -
    define s where "s = foldl (extractLine rt) initScan lines"
    have "v_userMessageCount initScan = 0" "v_assistantMessageCount initScan = 0"
      by (simp_all add: initScan_def)
    then have "v_userMessageCount s + v_assistantMessageCount s
                 = length (filter qualifying (decodedEntries rt lines))"
      unfolding s_def using extractLoop_counts [of rt initScan lines] by simp
    then show ?thesis
      unfolding s_def [symmetric]
      by (cases "filter qualifying (decodedEntries rt lines)") (simp_all, arith)
  qed
  have s: "scan (foldl (parseLine rt clock) initParse lines)
             = foldl (extractLine rt) initScan lines"
    by (simp add: scan_parseLoop initParse_def)
  have m: "p_messages (foldl (parseLine rt clock) initParse lines)
             = messagesOf clock 0 (decodedEntries rt lines)"
    by (simp add: parseLoop_messagesOf initParse_def)
  have e: "lines = [] \<Longrightarrow> filter qualifying (decodedEntries rt lines) = []"
    by (simp add: decodedEntries_Nil)
  show ?thesis
    using c e by (auto simp: parseSessionFile_def assms Let_def s m split: sum.splits)
qed

subsection \<open>A file that contributes nothing to the listing\<close>

lemma withoutFile_sel:
  "homedir (withoutFile rt d f) = homedir rt"
  "existsSync (withoutFile rt d f) = existsSync rt"
  "readdirSync_withFileTypes (withoutFile rt d f) = readdirSync_withFileTypes rt"
  "statSync (withoutFile rt d f) = statSync rt"
  "readFileSync (withoutFile rt d f) = readFileSync rt"
  "JSON_parse (withoutFile rt d f) = JSON_parse rt"
  "getTime (withoutFile rt d f) = getTime rt"
  "readdirSync (withoutFile rt d f) p =
     (if p = d then map_sum id (filter (\<lambda>g. g \<noteq> f)) (readdirSync rt p) else readdirSync rt p)"
  by (simp_all add: withoutFile_def)

lemma readJsonlLines_withoutFile:
  "readJsonlLines (withoutFile rt d f) fp = readJsonlLines rt fp"
  unfolding readJsonlLines_def withoutFile_sel by (rule refl)

lemma extractLine_withoutFile: "extractLine (withoutFile rt d f) = extractLine rt"
  unfolding extractLine_def withoutFile_sel by (rule refl)

lemma extractSessionInfo_withoutFile:
  "extractSessionInfo (withoutFile rt d f) fp sid dp = extractSessionInfo rt fp sid dp"
  unfolding extractSessionInfo_def readJsonlLines_withoutFile extractLine_withoutFile
  by (rule refl)

lemma listFile_withoutFile: "listFile (withoutFile rt d f) = listFile rt"
  unfolding listFile_def extractSessionInfo_withoutFile by (rule refl)

lemma concat_listFile_skip:
  "listFile rt dirPath dp f = [] \<Longrightarrow>
   concat (map (listFile rt dirPath dp) (filter (\<lambda>g. g \<noteq> f \<and> P g) files))
     = concat (map (listFile rt dirPath dp) (filter P files))"
  by (induction files) auto

lemma listProject_withoutFile:
  assumes "\<And>dp. listFile rt dirPath dp f = []"
  shows "listProject (withoutFile rt dirPath f) pd d = listProject rt pd d"
proof (cases "path_join pd (name d) = dirPath")
  case True
  then show ?thesis
    unfolding listProject_def Let_def listFile_withoutFile withoutFile_sel
    using assms
    by (auto simp: concat_listFile_skip split: sum.splits)
next
  case False
  then show ?thesis
    unfolding listProject_def Let_def listFile_withoutFile withoutFile_sel
    by simp
qed

lemma listClaudeSessions_withoutFile:
  assumes "\<And>dp. listFile rt dirPath dp f = []"
  shows "listClaudeSessions (withoutFile rt dirPath f) = listClaudeSessions rt"
proof -
  have lp: "listProject (withoutFile rt dirPath f) = listProject rt"
    using listProject_withoutFile [OF assms] by (simp add: fun_eq_iff)
  show ?thesis
    unfolding listClaudeSessions_def lp sortSessions_def getClaudeProjectsDir_def
      withoutFile_sel
    by (rule refl)
qed

lemma listFile_None:
  "(\<And>sid. extractSessionInfo rt (path_join dirPath f) sid dp = Inr None)
     \<Longrightarrow> listFile rt dirPath dp f = []"
  by (simp add: listFile_def Let_def)

subsection \<open>When the full parse raises\<close>

lemma raise_when_unreadable:
  "locateSession rt sid = Some (fp, dp) \<Longrightarrow> readJsonlLines rt fp = Inl e
     \<Longrightarrow> parseClaudeSession rt clock sid = Inl e"
  by (simp add: parseClaudeSession_def parseSessionFile_def)

lemma raise_cases:
  assumes "parseClaudeSession rt clock sid = Inl e"
  shows "\<exists>fp dp. locateSession rt sid = Some (fp, dp)
           \<and> (readJsonlLines rt fp = Inl e
                \<or> (\<exists>lines stat. readJsonlLines rt fp = Inr (Some (lines, stat))
                      \<and> makeInfo sid dp stat (foldl (extractLine rt) initScan lines) = Inl e))"
proof -
  from assms obtain fp dp where l: "locateSession rt sid = Some (fp, dp)"
    and p: "parseSessionFile rt clock fp sid dp = Inl e"
    by (auto simp: parseClaudeSession_def split: option.splits)
  show ?thesis
  proof (cases "readJsonlLines rt fp")
    case (Inl x)
    with p l show ?thesis by (simp add: parseSessionFile_def)
  next
    case (Inr found)
    with p obtain lines stat where r: "readJsonlLines rt fp = Inr (Some (lines, stat))"
      by (cases found) (auto simp: parseSessionFile_def)
    from p have "makeInfo sid dp stat (foldl (extractLine rt) initScan lines) = Inl e"
      unfolding parseSessionFile_result [OF r] by (simp split: if_splits sum.splits)
    with l r show ?thesis by simp
  qed
qed

subsection \<open>Replacing dashes\<close>

lemma replace_all_dashes_map:
  "replace_all_dashes s = map (\<lambda>c. if c = CHR ''-'' then CHR ''/'' else c) s"
  by (induction s) simp_all

lemma replace_leading_dash_then_all:
  "replace_all_dashes (replace_leading_dash s)
     = map (\<lambda>c. if c = CHR ''-'' then CHR ''/'' else c) s"
  by (cases s) (simp_all add: replace_all_dashes_map)

subsection \<open>Removing the extension\<close>

lemma replace_first_no_dot:
  "CHR ''.'' \<notin> set base \<Longrightarrow> replace_first (base @ ''.jsonl'') ''.jsonl'' [] = base"
  by (induction base) (auto simp: startsWith_def)

subsection \<open>Joining paths\<close>

lemma split_slash_nonempty: "split_slash s \<noteq> []"
  by (induction s) (simp_all split: list.splits)

lemma split_slash_append:
  "split_slash (a @ CHR ''/'' # b) = split_slash a @ split_slash b"
  using split_slash_nonempty by (induction a) (auto split: list.splits)

lemma split_slash_simple: "CHR ''/'' \<notin> set f \<Longrightarrow> split_slash f = [f]"
  by (induction f) (auto split: list.splits)

lemma normalizeString_append:
  "normalizeString b res (xs @ ys) = normalizeString b (normalizeString b res xs) ys"
  by (cases b; induction xs arbitrary: res) simp_all

lemma projects_dir:
  "path_joins [''/home/u'', ''.claude'', ''projects''] = ''/home/u/.claude/projects''"
  by (simp add: path_joins_def path_normalize_def)

lemma project_dir:
  "path_join ''/home/u/.claude/projects'' ''-home-user-myproject''
     = ''/home/u/.claude/projects/-home-user-myproject''"
  by (simp add: path_join_def path_joins_def path_normalize_def)

lemma project_segments:
  "normalizeString False [] (split_slash ''/home/u/.claude/projects/-home-user-myproject'')
     = [''home'', ''u'', ''.claude'', ''projects'', ''-home-user-myproject'']"
  by simp

lemma example_join3:
  "path_joins [''/home/u/.claude/projects'', ''-home-user-myproject'', x] = example_path x"
  unfolding example_path_def project_dir
  by (simp add: path_join_def path_joins_def)

lemma example_path_simple:
  assumes "simple_name f"
  shows "example_path f = ''/home/u/.claude/projects/-home-user-myproject/'' @ f"
proof -
  from assms have f: "f \<noteq> []" "f \<noteq> ''.''" "f \<noteq> ''..''" "CHR ''/'' \<notin> set f"
    by (simp_all add: simple_name_def)
  define p where "p = ''/home/u/.claude/projects/-home-user-myproject'' @ CHR ''/'' # f"
  have s: "split_slash p = split_slash ''/home/u/.claude/projects/-home-user-myproject'' @ [f]"
    unfolding p_def by (simp only: split_slash_append split_slash_simple [OF f(4)])
  have n: "normalizeString False [] (split_slash p)
      = [''home'', ''u'', ''.claude'', ''projects'', ''-home-user-myproject'', f]"
    unfolding s normalizeString_append project_segments using f by simp
  have "last p = last f"
    unfolding p_def using f(1) by simp
  then have l: "last p \<noteq> CHR ''/''"
    using f(4) last_in_set [OF f(1)] by metis
  have h: "hd p = CHR ''/''" and e: "p \<noteq> []"
    unfolding p_def by simp_all
  have "path_normalize p = ''/home/u/.claude/projects/-home-user-myproject/'' @ f"
    by (simp add: path_normalize_def n l h e)
  moreover have "example_path f = path_normalize p"
    unfolding example_path_def project_dir p_def using f(1)
    by (simp add: path_join_def path_joins_def)
  ultimately show ?thesis by simp
qed

lemma example_path_inject:
  "simple_name f \<Longrightarrow> simple_name g \<Longrightarrow> example_path g = example_path f \<longleftrightarrow> g = f"
  by (simp add: example_path_simple)

lemma example_path_not_dir:
  assumes "simple_name g"
  shows "example_path g \<noteq> ''/home/u/.claude/projects''"
    and "example_path g \<noteq> path_join ''/home/u/.claude/projects'' ''-home-user-myproject''"
  by (simp_all add: example_path_simple [OF assms] project_dir)

lemma simple_name_jsonl: "CHR ''/'' \<notin> set sid \<Longrightarrow> simple_name (sid @ ''.jsonl'')"
  by (cases sid rule: rev_cases) (auto simp: simple_name_def)

subsection \<open>Evaluating the example sessions\<close>

lemma example_parse_simps:
  "example_parse line_queue = Some entry_queue"
  "example_parse line_hello = Some entry_hello"
  "example_parse line_reply = Some entry_reply"
  "example_parse line_untimed = Some entry_untimed"
  "example_parse line_old = Some entry_old"
  "example_parse line_fragments = Some entry_fragments"
  "example_parse line_blank = Some entry_blank"
  "example_parse line_nullblock = Some entry_nullblock"
  "example_parse line_badcwd = Some entry_badcwd"
  by (simp_all add: example_parse_def line_queue_def line_hello_def line_reply_def
      line_untimed_def line_old_def line_fragments_def line_blank_def line_nullblock_def
      line_badcwd_def)

lemma example_parse_garbage:
  "example_parse line_garbage = None"
  "example_parse line_truncated = None"
  by (simp_all add: example_parse_def line_queue_def line_hello_def line_reply_def
      line_untimed_def line_old_def line_fragments_def line_blank_def line_nullblock_def
      line_badcwd_def line_garbage_def line_truncated_def)

lemma split_nl_line:
  "CHR 0x0A \<notin> set l \<Longrightarrow> split_nl (l @ CHR 0x0A # rest) = l # split_nl rest"
  by (induction l) (auto split: list.splits)

lemma trim_empty: "trim l = [] \<longleftrightarrow> list_all is_ws l"
proof -
  have "trim l = [] \<longleftrightarrow> dropWhile is_ws (rev (dropWhile is_ws l)) = []"
    by (simp add: trim_def)
  also have "\<dots> \<longleftrightarrow> (\<forall>c \<in> set (dropWhile is_ws l). is_ws c)"
    by simp
  also have "\<dots> \<longleftrightarrow> dropWhile is_ws l = []"
    by (metis hd_dropWhile hd_in_set empty_iff list.set(1))
  also have "\<dots> \<longleftrightarrow> list_all is_ws l"
    by (simp add: list_all_iff)
  finally show ?thesis .
qed

lemma jsonl_lines_file:
  "list_all (\<lambda>l. CHR 0x0A \<notin> set l) ls \<Longrightarrow>
   jsonl_lines (concat (map (\<lambda>l. l @ [CHR 0x0A]) ls)) = filter (\<lambda>l. \<not> list_all is_ws l) ls"
  by (induction ls) (simp_all add: jsonl_lines_def split_nl_line trim_empty)

lemma example_lines_ok:
  "CHR 0x0A \<notin> set line_queue \<and> \<not> list_all is_ws line_queue"
  "CHR 0x0A \<notin> set line_hello \<and> \<not> list_all is_ws line_hello"
  "CHR 0x0A \<notin> set line_reply \<and> \<not> list_all is_ws line_reply"
  "CHR 0x0A \<notin> set line_untimed \<and> \<not> list_all is_ws line_untimed"
  "CHR 0x0A \<notin> set line_old \<and> \<not> list_all is_ws line_old"
  "CHR 0x0A \<notin> set line_fragments \<and> \<not> list_all is_ws line_fragments"
  "CHR 0x0A \<notin> set line_blank \<and> \<not> list_all is_ws line_blank"
  "CHR 0x0A \<notin> set line_garbage \<and> \<not> list_all is_ws line_garbage"
  "CHR 0x0A \<notin> set line_truncated \<and> \<not> list_all is_ws line_truncated"
  "CHR 0x0A \<notin> set line_nullblock \<and> \<not> list_all is_ws line_nullblock"
  "CHR 0x0A \<notin> set line_badcwd \<and> \<not> list_all is_ws line_badcwd"
  by (simp_all add: line_queue_def line_hello_def line_reply_def is_ws_def
      line_untimed_def line_old_def line_fragments_def line_blank_def
      line_garbage_def line_truncated_def line_nullblock_def line_badcwd_def)

lemma one_session_exists:
  assumes "simple_name f" and "simple_name g"
  shows "existsSync (one_session f n t) (example_path g) \<longleftrightarrow> g = f"
proof -
  have "existsSync (one_session f n t) p \<longleftrightarrow>
          p = ''/home/u/.claude/projects''
          \<or> p = path_join ''/home/u/.claude/projects'' ''-home-user-myproject''
          \<or> p = example_path f" for p
    by (auto simp: one_session_def memfs_def memfs_files_def example_path_def)
  then show ?thesis
    by (simp add: example_path_not_dir [OF assms(2)] example_path_inject [OF assms])
qed

lemma one_session_sel:
  "getClaudeProjectsDir (one_session f n t) = ''/home/u/.claude/projects''"
  "existsSync (one_session f n t) ''/home/u/.claude/projects''"
  "readdirSync_withFileTypes (one_session f n t) ''/home/u/.claude/projects''
     = Inr [\<lparr>name = ''-home-user-myproject'', isDirectory = True\<rparr>]"
  "readdirSync (one_session f n t)
     (path_join ''/home/u/.claude/projects'' ''-home-user-myproject'') = Inr [f]"
  "statSync (one_session f n t)
     (path_join (path_join ''/home/u/.claude/projects'' ''-home-user-myproject'') f)
     = Inr (example_stat n)"
  "readFileSync (one_session f n t)
     (path_join (path_join ''/home/u/.claude/projects'' ''-home-user-myproject'') f) = t"
  "JSON_parse (one_session f n t) = example_parse"
  "getTime (one_session f n t) = example_getTime"
  by (auto simp: one_session_def memfs_def memfs_files_def getClaudeProjectsDir_def
      projects_dir)

lemma decode_example_dir: "decodeProjectPath ''-home-user-myproject'' = ''/home/user/myproject''"
  by (simp add: decodeProjectPath_def startsWith_def)

lemma one_session_locate:
  assumes "simple_name f" and "CHR ''/'' \<notin> set sid"
  shows "locateSession (one_session f n t) sid =
     (if f = sid @ ''.jsonl''
      then Some (path_join (path_join ''/home/u/.claude/projects'' ''-home-user-myproject'') f,
                 ''/home/user/myproject'')
      else None)"
  using one_session_exists [OF assms(1) simple_name_jsonl [OF assms(2)], of n t]
  by (auto simp: locateSession_def one_session_sel decode_example_dir example_join3)
     (simp_all add: example_path_def)

lemma one_session_read:
  assumes n: "n \<le> MAX_FILE_SIZE"
    and ok: "list_all (\<lambda>l. CHR 0x0A \<notin> set l \<and> \<not> list_all is_ws l) ls"
  shows "readJsonlLines (one_session f n (file_of ls))
       (path_join (path_join ''/home/u/.claude/projects'' ''-home-user-myproject'') f)
     = Inr (Some (ls, example_stat n))"
proof -
  from ok have a: "list_all (\<lambda>l. CHR 0x0A \<notin> set l) ls"
    and b: "filter (\<lambda>l. \<not> list_all is_ws l) ls = ls"
    by (simp_all add: list_all_iff)
  show ?thesis
    using n by (simp add: readJsonlLines_def one_session_sel file_of_def jsonl_lines_file [OF a] b
        example_stat_def)
qed

lemma sort_key_short: "length xs \<le> 1 \<Longrightarrow> sort_key k xs = xs"
  by (cases xs) (simp_all)

lemma sort_key_listFile: "sort_key k (listFile rt d dp f) = listFile rt d dp f"
  by (rule sort_key_short) (simp add: listFile_def Let_def split: sum.splits option.splits)

lemma one_session_list:
  "listClaudeSessions (one_session f n t) =
     (if endsWith f ''.jsonl''
      then listFile (one_session f n t)
             (path_join ''/home/u/.claude/projects'' ''-home-user-myproject'')
             ''/home/user/myproject'' f
      else [])"
  by (simp add: listClaudeSessions_def one_session_sel listProject_def decode_example_dir
      sortSessions_def sort_key_listFile)

lemma one_session_parse:
  assumes "n \<le> MAX_FILE_SIZE"
    and "list_all (\<lambda>l. CHR 0x0A \<notin> set l \<and> \<not> list_all is_ws l) ls"
    and "CHR ''/'' \<notin> set sid"
  shows "parseClaudeSession (one_session (sid @ ''.jsonl'') n (file_of ls)) clock sid
     = (if ls = [] then Inr None
        else (let st = foldl (parseLine (one_session (sid @ ''.jsonl'') n (file_of ls)) clock)
                         initParse ls
              in if v_userMessageCount (scan st) = 0 \<and> v_assistantMessageCount (scan st) = 0
                 then Inr None
                 else (case makeInfo sid ''/home/user/myproject'' (example_stat n) (scan st) of
                         Inl e \<Rightarrow> Inl e
                       | Inr found \<Rightarrow>
                           Inr (Some \<lparr>info = found, messages = p_messages st\<rparr>))))"
  by (simp add: parseClaudeSession_def parseSessionFile_def one_session_read [OF assms(1,2)]
      one_session_locate [OF simple_name_jsonl [OF assms(3)] assms(3)])

lemma one_session_listing:
  assumes "n \<le> MAX_FILE_SIZE"
    and "list_all (\<lambda>l. CHR 0x0A \<notin> set l \<and> \<not> list_all is_ws l) ls"
    and "endsWith f ''.jsonl''"
  shows "listClaudeSessions (one_session f n (file_of ls))
     = (if ls = [] then []
        else (let s = foldl (extractLine (one_session f n (file_of ls))) initScan ls
              in if v_userMessageCount s = 0 \<and> v_assistantMessageCount s = 0 then []
                 else (case makeInfo (replace_first f ''.jsonl'' []) ''/home/user/myproject''
                              (example_stat n) s of
                         Inl e \<Rightarrow> []
                       | Inr found \<Rightarrow> [found])))"
  by (simp add: one_session_list assms(3) listFile_def extractSessionInfo_def
      one_session_read [OF assms(1,2)] Let_def split: sum.splits)

lemmas pass_simps = parseLine_def extractLine_def one_session_sel example_parse_simps
  example_parse_garbage trackTimestamp_def scanUser_def countUser_def captureFields_def
  first_wins_def first_cwd_def capturePreview_def message_content_def truthy_def or_empty_def
  pushParsed_def parseUserMessage_def userMessage_def parseAssistantMessage_def
  timestampOrNow_def joinText_def initParse_def initScan_def makeInfo_def path_basename_def
  trim_empty is_ws_def entry_queue_def entry_hello_def entry_reply_def entry_untimed_def
  entry_old_def entry_fragments_def entry_blank_def entry_nullblock_def entry_badcwd_def
  Let_def
  example_stat_def startsWith_def endsWith_def simple_name_def

lemma small_size: "300 \<le> MAX_FILE_SIZE"
  by (simp add: MAX_FILE_SIZE_def)

lemma path_joins_examples:
  "path_joins [''/p'', ''d'', ''x/../s1.jsonl''] = ''/p/d/s1.jsonl''"
  "path_joins [''/a'', ''../..''] = ''/''"
  "path_joins [''a'', ''..'', ''..''] = ''..''"
  "path_joins [[], []] = ''.''"
  "path_join ''/a/'' ''/b/'' = ''/a/b/''"
  "path_join ''a'' ''./b'' = ''a/b''"
  by (simp_all add: path_join_def path_joins_def path_normalize_def)

lemma locate_normalised:
  "locateSession (one_session ''s1.jsonl'' n t) ''x/../s1''
     = Some (example_path ''s1.jsonl'', ''/home/user/myproject'')"
proof -
  have "path_joins [''/home/u/.claude/projects'', ''-home-user-myproject'', ''x/../s1.jsonl'']
          = ''/home/u/.claude/projects/-home-user-myproject/s1.jsonl''"
    by (simp add: path_joins_def path_normalize_def)
  then have "path_joins [''/home/u/.claude/projects'', ''-home-user-myproject'',
                          ''x/../s1'' @ ''.jsonl''] = example_path ''s1.jsonl''"
    by (simp add: example_path_simple simple_name_def)
  moreover have "existsSync (one_session ''s1.jsonl'' n t) (example_path ''s1.jsonl'')"
    by (simp add: one_session_exists simple_name_def)
  ultimately show ?thesis
    by (simp add: locateSession_def one_session_sel decode_example_dir del: append.simps)
qed

lemma raise_when_cwd_not_string:
  "parseClaudeSession (one_session ''s1.jsonl'' 300 (file_of [line_badcwd])) clock_a ''s1''
     = Inl TypeError"
  "listClaudeSessions (one_session ''s1.jsonl'' 300 (file_of [line_badcwd])) = []"
  using one_session_parse [of 300 "[line_badcwd]" "''s1''" clock_a]
    one_session_listing [of 300 "[line_badcwd]" "''s1.jsonl''"]
  by (simp_all add: small_size example_lines_ok pass_simps)

lemma hello_facts:
  "listClaudeSessions hello_session = [hello_info]"
  "extractSessionInfo hello_session (example_path ''s1.jsonl'') ''s1'' ''/home/user/myproject''
     = Inr (Some hello_info)"
  "readJsonlLines hello_session (example_path ''s1.jsonl'')
     = Inr (Some ([line_queue, line_hello, line_reply], example_stat 300))"
proof -
  have ok: "list_all (\<lambda>l. CHR 0x0A \<notin> set l \<and> \<not> list_all is_ws l)
              [line_queue, line_hello, line_reply]"
    by (simp add: example_lines_ok)
  show r: "readJsonlLines hello_session (example_path ''s1.jsonl'')
     = Inr (Some ([line_queue, line_hello, line_reply], example_stat 300))"
    unfolding hello_session_def example_path_def
    by (rule one_session_read [OF small_size ok])
  show "listClaudeSessions hello_session = [hello_info]"
    unfolding hello_session_def
    using one_session_listing [OF small_size ok, of "''s1.jsonl''"]
    by (simp add: pass_simps hello_info_def)
  show "extractSessionInfo hello_session (example_path ''s1.jsonl'') ''s1'' ''/home/user/myproject''
     = Inr (Some hello_info)"
    unfolding extractSessionInfo_def r
    by (simp add: hello_session_def pass_simps hello_info_def)
qed

lemma hello_stamps:
  "stampSource hello_session [line_queue, line_hello, line_reply] (example_stat 300)
     = [''2026-01-15T10:00:00.000Z'', ''2026-01-15T10:00:01.000Z'', ''2026-01-15T10:00:02.000Z'']"
  by (simp add: stampSource_def fileStamps_def decodedEntries_def hello_session_def pass_simps)

section \<open>The claims\<close>

subsection \<open>Parsing twice\<close>

text \<open>
  C1, as amended. Two calls of \<open>parseClaudeSession\<close> on the same session and the same
  files, at different times, return the same \<open>info\<close> (or the same error or not-found
  result) and the same messages up to their \<open>timestamp\<close> fields. When every user and
  assistant entry of the file carries a time stamp, the two results are identical; the
  \<open>timestamp\<close> of a message whose entry carries none is the time of the call.
\<close>

theorem parse_clock_independence:
  "resultInfo (parseClaudeSession rt clock sid) = resultInfo (parseClaudeSession rt clock' sid)
   \<and> map untimed (resultMessages (parseClaudeSession rt clock sid))
       = map untimed (resultMessages (parseClaudeSession rt clock' sid))
   \<and> (locateSession rt sid = Some (fp, dp)
        \<and> readJsonlLines rt fp = Inr (Some (lines, stat))
        \<and> list_all (\<lambda>e. truthy (e_timestamp e)) (filter qualifying (decodedEntries rt lines))
      \<longrightarrow> parseClaudeSession rt clock sid = parseClaudeSession rt clock' sid)
   \<and> (parseUserMessage clock n entry = Inr (Some m, k)
        \<or> parseAssistantMessage clock n entry = Inr (Some m, k)
      \<longrightarrow> timestamp m = (if truthy (e_timestamp entry) then or_empty (e_timestamp entry)
                         else clock n))"
proof (intro conjI impI)
  show "resultInfo (parseClaudeSession rt clock sid)
          = resultInfo (parseClaudeSession rt clock' sid)"
    by (simp add: parseClaudeSession_def parse_info_extract split: option.splits)
  show "map untimed (resultMessages (parseClaudeSession rt clock sid))
       = map untimed (resultMessages (parseClaudeSession rt clock' sid))"
    by (simp add: parseClaudeSession_def untimed_parseSessionFile [of rt clock _ sid _ clock']
        split: option.splits)
next
  assume "locateSession rt sid = Some (fp, dp)
        \<and> readJsonlLines rt fp = Inr (Some (lines, stat))
        \<and> list_all (\<lambda>e. truthy (e_timestamp e)) (filter qualifying (decodedEntries rt lines))"
  then show "parseClaudeSession rt clock sid = parseClaudeSession rt clock' sid"
    by (simp add: parseClaudeSession_def
        timed_parseSessionFile [of rt fp lines stat clock sid dp clock'])
next
  assume "parseUserMessage clock n entry = Inr (Some m, k)
        \<or> parseAssistantMessage clock n entry = Inr (Some m, k)"
  then show "timestamp m = (if truthy (e_timestamp entry) then or_empty (e_timestamp entry)
                         else clock n)"
    by (rule message_timestamp)
qed

text \<open>
  C1 as stated fails: a session whose only line is a user entry without a time stamp is
  parsed into a message stamped with the time of the call, so two calls at different
  times differ.
\<close>

theorem parse_twice_differs:
  "parseClaudeSession (one_session ''s1.jsonl'' 300 (file_of [line_untimed])) clock_a ''s1''
   \<noteq> parseClaudeSession (one_session ''s1.jsonl'' 300 (file_of [line_untimed])) clock_b ''s1''"
  using one_session_parse [of 300 "[line_untimed]" "''s1''" clock_a]
    one_session_parse [of 300 "[line_untimed]" "''s1''" clock_b]
  by (simp add: small_size example_lines_ok pass_simps clock_a_def clock_b_def)

text \<open>
  The end-to-end example, in which every entry carries a time stamp, and the message of
  a user entry that carries none.
\<close>

theorem parse_clock_independence_witness:
  "locateSession hello_session ''s1'' = Some (example_path ''s1.jsonl'', ''/home/user/myproject'')
   \<and> readJsonlLines hello_session (example_path ''s1.jsonl'')
       = Inr (Some ([line_queue, line_hello, line_reply], example_stat 300))
   \<and> list_all (\<lambda>e. truthy (e_timestamp e))
        (filter qualifying (decodedEntries hello_session [line_queue, line_hello, line_reply]))
   \<and> parseClaudeSession hello_session clock_a ''s1''
       = parseClaudeSession hello_session clock_b ''s1''
   \<and> parseUserMessage clock_a 0 entry_untimed
       = Inr (Some \<lparr>role = User, content = ''hi'', contentBlocks = [TextBlock ''hi''],
                    hasToolBlocks = False, timestamp = clock_a 0\<rparr>, 1)"
proof -
  have l: "locateSession hello_session ''s1''
             = Some (example_path ''s1.jsonl'', ''/home/user/myproject'')"
    by (simp add: hello_session_def one_session_locate example_path_def simple_name_def)
  have t: "list_all (\<lambda>e. truthy (e_timestamp e))
        (filter qualifying (decodedEntries hello_session [line_queue, line_hello, line_reply]))"
    by (simp add: decodedEntries_def qualifying_def hello_session_def pass_simps)
  have m: "parseUserMessage clock_a 0 entry_untimed
       = Inr (Some \<lparr>role = User, content = ''hi'', contentBlocks = [TextBlock ''hi''],
                    hasToolBlocks = False, timestamp = clock_a 0\<rparr>, 1)"
    by (simp add: pass_simps)
  show ?thesis
    using parse_clock_independence [where rt = hello_session and sid = "''s1''"
        and fp = "example_path ''s1.jsonl''" and dp = "''/home/user/myproject''"
        and lines = "[line_queue, line_hello, line_reply]" and stat = "example_stat 300"
        and clock = clock_a and clock' = clock_b and n = 0 and entry = entry_untimed
        and k = 1
        and m = "\<lparr>role = User, content = ''hi'', contentBlocks = [TextBlock ''hi''],
               hasToolBlocks = False, timestamp = clock_a 0\<rparr>"]
      l t m hello_facts(3)
    by simp
qed

subsection \<open>Failures of the file system\<close>

text \<open>
  C2. \<open>listClaudeSessions\<close> and \<open>parseClaudeSession\<close> are claimed never to raise an
  error to the caller, whatever the file system does. The code does not do that: where
  the session file \<open>s1.jsonl\<close> exists and cannot be read (a permission failure: the
  read throws \<open>EACCES\<close>), \<open>parseClaudeSession\<close> on \<open>s1\<close> raises the error, while
  \<open>listClaudeSessions\<close> skips the file and returns the empty list.
\<close>

theorem parseClaudeSession_raises:
  "parseClaudeSession (one_session ''s1.jsonl'' 300 (Inl EACCES)) clock_a ''s1'' = Inl EACCES
   \<and> listClaudeSessions (one_session ''s1.jsonl'' 300 (Inl EACCES)) = []"
  by (simp add: parseClaudeSession_def one_session_locate one_session_list parseSessionFile_def
      readJsonlLines_def one_session_sel example_stat_def MAX_FILE_SIZE_def endsWith_def
      listFile_def extractSessionInfo_def simple_name_def)

subsection \<open>Creation and update times\<close>

text \<open>
  C3, as amended. Every entry that \<open>listClaudeSessions\<close> lists and every \<open>info\<close> that
  \<open>parseClaudeSession\<close> returns is the metadata of a session file. Its \<open>createdAt\<close> is
  the first and its \<open>updatedAt\<close> the last time stamp that the entries of the file
  carry, in file order; when no entry carries one, they are the birth time and the
  modification time of the file. So \<open>createdAt \<le> updatedAt\<close> holds when these time
  stamps do not decrease along the file (the birth time is not after the modification
  time, where the two are used); the code compares no time stamps.
\<close>

theorem stamps_first_last:
  "(i \<in> set (listClaudeSessions rt) \<or> resultInfo (parseClaudeSession rt clock sid) = Inr (Some i)
      \<longrightarrow> (\<exists>fp sid' dp. extractSessionInfo rt fp sid' dp = Inr (Some i)))
   \<and> (extractSessionInfo rt fp sid dp = Inr (Some i)
        \<and> readJsonlLines rt fp = Inr (Some (lines, stat))
      \<longrightarrow> stampSource rt lines stat \<noteq> []
          \<and> createdAt i = hd (stampSource rt lines stat)
          \<and> updatedAt i = last (stampSource rt lines stat)
          \<and> (sorted_wrt (\<lambda>a b. getTime rt a \<le> getTime rt b) (stampSource rt lines stat)
               \<longrightarrow> orderedStamps rt i))"
proof (intro conjI impI)
  assume "i \<in> set (listClaudeSessions rt) \<or> resultInfo (parseClaudeSession rt clock sid) = Inr (Some i)"
  then show "\<exists>fp sid' dp. extractSessionInfo rt fp sid' dp = Inr (Some i)"
    by (rule produced_info)
next
  assume a: "extractSessionInfo rt fp sid dp = Inr (Some i)
        \<and> readJsonlLines rt fp = Inr (Some (lines, stat))"
  then have i: "makeInfo sid dp stat (foldl (extractLine rt) initScan lines) = Inr i"
    using extract_Some [of rt fp sid dp i lines stat] by simp
  show "stampSource rt lines stat \<noteq> []" by (rule stampSource_nonempty)
  have h: "fileStamps rt lines \<noteq> [] \<Longrightarrow> hd (fileStamps rt lines) \<noteq> []"
    using fileStamps_truthy [of "hd (fileStamps rt lines)" rt lines] by simp
  have l: "fileStamps rt lines \<noteq> [] \<Longrightarrow> last (fileStamps rt lines) \<noteq> []"
    using fileStamps_truthy [of "last (fileStamps rt lines)" rt lines] by simp
  show c: "createdAt i = hd (stampSource rt lines stat)"
    using h
    by (cases "fileStamps rt lines")
       (simp_all add: makeInfo_fields [OF i] extractLoop_createdAt initScan_def stampSource_def)
  show u: "updatedAt i = last (stampSource rt lines stat)"
    using l
    by (simp add: makeInfo_fields [OF i] extractLoop_updatedAt initScan_def stampSource_def)
  assume s: "sorted_wrt (\<lambda>a b. getTime rt a \<le> getTime rt b) (stampSource rt lines stat)"
  obtain t ts where ne: "stampSource rt lines stat = t # ts"
    using stampSource_nonempty [of rt lines stat] by (cases "stampSource rt lines stat") auto
  show "orderedStamps rt i"
  proof (cases ts)
    case Nil
    then show ?thesis by (simp add: orderedStamps_def c u ne)
  next
    case (Cons a as)
    then have "last (t # ts) \<in> set ts" by simp
    with s ne show ?thesis by (simp add: orderedStamps_def c u)
  qed
qed

text \<open>
  C3 as stated fails on the older session of the unit test on sorting: its lifecycle
  marker is stamped 15 January 2026 and the user line after it 1 January 2025, so
  \<open>createdAt\<close> is the stamp of 2026 and \<open>updatedAt\<close> the stamp of 2025.
\<close>

theorem stamps_out_of_order:
  "\<not> list_all
        (orderedStamps (one_session ''s1.jsonl'' 300 (file_of [line_queue, line_old])))
        (listClaudeSessions (one_session ''s1.jsonl'' 300 (file_of [line_queue, line_old])))
   \<and> map createdAt
         (listClaudeSessions (one_session ''s1.jsonl'' 300 (file_of [line_queue, line_old])))
       = [''2026-01-15T10:00:00.000Z'']
   \<and> map updatedAt
         (listClaudeSessions (one_session ''s1.jsonl'' 300 (file_of [line_queue, line_old])))
       = [''2025-01-01T00:00:00.000Z'']"
  using one_session_listing [of 300 "[line_queue, line_old]" "''s1.jsonl''"]
  by (simp add: small_size example_lines_ok pass_simps orderedStamps_def example_getTime_def)

text \<open>The end-to-end example of the specification, whose time stamps increase.\<close>

theorem stamps_first_last_witness:
  "hello_info \<in> set (listClaudeSessions hello_session)
   \<and> extractSessionInfo hello_session (example_path ''s1.jsonl'') ''s1'' ''/home/user/myproject''
       = Inr (Some hello_info)
   \<and> readJsonlLines hello_session (example_path ''s1.jsonl'')
       = Inr (Some ([line_queue, line_hello, line_reply], example_stat 300))
   \<and> sorted_wrt (\<lambda>a b. getTime hello_session a \<le> getTime hello_session b)
        (stampSource hello_session [line_queue, line_hello, line_reply] (example_stat 300))
   \<and> createdAt hello_info = ''2026-01-15T10:00:00.000Z''
   \<and> updatedAt hello_info = ''2026-01-15T10:00:02.000Z''
   \<and> orderedStamps hello_session hello_info"
proof -
  have s: "sorted_wrt (\<lambda>a b. getTime hello_session a \<le> getTime hello_session b)
        (stampSource hello_session [line_queue, line_hello, line_reply] (example_stat 300))"
    by (simp add: hello_stamps) (simp add: hello_session_def one_session_sel example_getTime_def)
  show ?thesis
    using stamps_first_last [where i = hello_info and rt = hello_session and fp = "example_path ''s1.jsonl''"
        and sid = "''s1''" and dp = "''/home/user/myproject''"
        and lines = "[line_queue, line_hello, line_reply]" and stat = "example_stat 300"]
      s hello_facts
    by (simp add: hello_stamps)
qed

subsection \<open>The preview\<close>

text \<open>
  C4, as amended. The preview of every listed or parsed session has at most 120
  characters. It is the first 120 characters of the first non-empty preview text of a
  user entry in file order, where the preview text of a string content is the string and
  that of a fragment list is the text of its first fragment tagged \<open>text\<close> (not the
  fragments joined by line feeds; a list with a \<open>null\<close> fragment before that one has no
  preview text); it is \<open>(no preview)\<close> when no user entry has one. The preview is
  first-wins: once it is set, no later line changes it, in either pass.
\<close>

theorem preview_first_fragment:
  "(i \<in> set (listClaudeSessions rt) \<or> resultInfo (parseClaudeSession rt clock sid) = Inr (Some i)
      \<longrightarrow> (\<exists>fp sid' dp. extractSessionInfo rt fp sid' dp = Inr (Some i)))
   \<and> (extractSessionInfo rt fp sid dp = Inr (Some i)
        \<and> readJsonlLines rt fp = Inr (Some (lines, stat))
      \<longrightarrow> length (preview i) \<le> 120
          \<and> preview i =
              (case find (\<lambda>t. t \<noteq> []) (map previewSource (userEntries rt lines)) of
                 None \<Rightarrow> ''(no preview)''
               | Some t \<Rightarrow> take 120 t))
   \<and> (v_preview s \<noteq> []
      \<longrightarrow> v_preview (foldl (extractLine rt) s later) = v_preview s)
   \<and> (v_preview (scan st) \<noteq> []
      \<longrightarrow> v_preview (scan (foldl (parseLine rt clock) st later)) = v_preview (scan st))"
proof (intro conjI impI)
  assume "i \<in> set (listClaudeSessions rt) \<or> resultInfo (parseClaudeSession rt clock sid) = Inr (Some i)"
  then show "\<exists>fp sid' dp. extractSessionInfo rt fp sid' dp = Inr (Some i)"
    by (rule produced_info)
next
  assume a: "extractSessionInfo rt fp sid dp = Inr (Some i)
        \<and> readJsonlLines rt fp = Inr (Some (lines, stat))"
  then have i: "makeInfo sid dp stat (foldl (extractLine rt) initScan lines) = Inr i"
    using extract_Some [of rt fp sid dp i lines stat] by simp
  have nonempty: "\<And>t. find (\<lambda>t. t \<noteq> []) (map previewSource (userEntries rt lines)) = Some t
      \<Longrightarrow> t \<noteq> []"
    by (auto simp: find_Some_iff)
  show p: "preview i =
              (case find (\<lambda>t. t \<noteq> []) (map previewSource (userEntries rt lines)) of
                 None \<Rightarrow> ''(no preview)''
               | Some t \<Rightarrow> take 120 t)"
    using nonempty
    by (simp add: makeInfo_fields [OF i] extractLoop_preview initScan_def split: option.splits)
  show "length (preview i) \<le> 120"
    by (simp add: p split: option.splits)
next
  assume "v_preview s \<noteq> []"
  then show "v_preview (foldl (extractLine rt) s later) = v_preview s"
    by (rule extractLoop_preview_kept)
next
  assume "v_preview (scan st) \<noteq> []"
  then show "v_preview (scan (foldl (parseLine rt clock) st later)) = v_preview (scan st)"
    by (simp add: scan_parseLoop extractLoop_preview_kept)
qed

text \<open>
  C4 as stated fails: for a user entry whose content is the fragments \<open>a\<close> and \<open>b\<close>, both
  tagged \<open>text\<close>, the extractable text is \<open>a\<close>, a line feed, \<open>b\<close>; the preview is \<open>a\<close>.
\<close>

theorem preview_not_joined:
  "\<not> list_all
        (previewAsStated (one_session ''s1.jsonl'' 300 (file_of [line_fragments]))
           [line_fragments])
        (listClaudeSessions (one_session ''s1.jsonl'' 300 (file_of [line_fragments])))
   \<and> map preview (listClaudeSessions (one_session ''s1.jsonl'' 300 (file_of [line_fragments])))
       = [''a'']
   \<and> statedPreview (one_session ''s1.jsonl'' 300 (file_of [line_fragments])) [line_fragments]
       = Some [CHR ''a'', CHR 0x0A, CHR ''b'']"
  using one_session_listing [of 300 "[line_fragments]" "''s1.jsonl''"]
  by (simp add: small_size example_lines_ok pass_simps previewAsStated_def
      statedPreview_def userEntries_def decodedEntries_def extractableText_def)

text \<open>The end-to-end example, and a preview already set that the user line leaves alone.\<close>

theorem preview_first_fragment_witness:
  "hello_info \<in> set (listClaudeSessions hello_session)
   \<and> extractSessionInfo hello_session (example_path ''s1.jsonl'') ''s1'' ''/home/user/myproject''
       = Inr (Some hello_info)
   \<and> readJsonlLines hello_session (example_path ''s1.jsonl'')
       = Inr (Some ([line_queue, line_hello, line_reply], example_stat 300))
   \<and> map previewSource (userEntries hello_session [line_queue, line_hello, line_reply])
       = [''Hello, can you help me?'']
   \<and> preview hello_info = ''Hello, can you help me?''
   \<and> v_preview (initScan\<lparr>v_preview := ''x''\<rparr>) \<noteq> []
   \<and> v_preview (foldl (extractLine hello_session) (initScan\<lparr>v_preview := ''x''\<rparr>) [line_hello])
       = ''x''
   \<and> v_preview (scan (initParse\<lparr>scan := initScan\<lparr>v_preview := ''x''\<rparr>\<rparr>)) \<noteq> []
   \<and> v_preview (scan (foldl (parseLine hello_session clock_a)
         (initParse\<lparr>scan := initScan\<lparr>v_preview := ''x''\<rparr>\<rparr>) [line_hello])) = ''x''"
proof -
  have u: "map previewSource (userEntries hello_session [line_queue, line_hello, line_reply])
       = [''Hello, can you help me?'']"
    by (simp add: userEntries_def decodedEntries_def previewSource_def hello_session_def
        pass_simps)
  show ?thesis
    using preview_first_fragment [where i = hello_info and rt = hello_session and fp = "example_path ''s1.jsonl''"
        and sid = "''s1''" and dp = "''/home/user/myproject''"
        and lines = "[line_queue, line_hello, line_reply]" and stat = "example_stat 300"
        and s = "initScan\<lparr>v_preview := ''x''\<rparr>" and later = "[line_hello]"
        and st = "initParse\<lparr>scan := initScan\<lparr>v_preview := ''x''\<rparr>\<rparr>" and clock = clock_a]
      hello_facts
    by (simp add: u)
qed

subsection \<open>Malformed lines\<close>

text \<open>
  C5. Lines that do not decode have no effect on the full pass: on every state, the pass
  over the lines of a file ends in the state in which the pass over its decodable lines
  ends (messages, counts, time stamps, preview and clock reads). The messages are those
  of the decoded entries, in file order. So \<open>parseClaudeSession\<close> returns the same result
  for a session file and for the file with the malformed lines removed. What it returns
  for a session file that it finds and reads is not-found when no decoded entry is a
  user or assistant entry; otherwise the \<open>info\<close> is the metadata computed from the
  decodable lines alone and the messages are exactly those that the Message Reconstructor
  produces from the decoded entries, in file order (or the error of \<open>path.basename\<close> where
  the \<open>cwd\<close> found is not a string). A line that decodes and on which the reconstructor
  throws is counted and gives no message.
\<close>

theorem malformed_lines_no_effect:
  "foldl (parseLine rt clock) st (filter (decodable rt) lines) = foldl (parseLine rt clock) st lines
   \<and> map untimed (p_messages (foldl (parseLine rt clock) initParse lines))
       = map untimed (List.map_filter entryMessage (decodedEntries rt lines))
   \<and> (JSON_parse rt' = JSON_parse rt
        \<and> locateSession rt sid = Some (fp, dp) \<and> locateSession rt' sid = Some (fp, dp)
        \<and> readJsonlLines rt fp = Inr (Some (lines, stat))
        \<and> readJsonlLines rt' fp = Inr (Some (filter (decodable rt) lines, stat))
      \<longrightarrow> parseClaudeSession rt' clock sid = parseClaudeSession rt clock sid)
   \<and> (locateSession rt sid = Some (fp, dp)
        \<and> readJsonlLines rt fp = Inr (Some (lines, stat))
      \<longrightarrow> parseClaudeSession rt clock sid =
            (if filter qualifying (decodedEntries rt lines) = [] then Inr None
             else (case makeInfo sid dp stat
                          (foldl (extractLine rt) initScan (filter (decodable rt) lines)) of
                     Inl e \<Rightarrow> Inl e
                   | Inr found \<Rightarrow>
                       Inr (Some \<lparr>info = found,
                                  messages = messagesOf clock 0 (decodedEntries rt lines)\<rparr>))))"
proof (intro conjI impI)
  show "foldl (parseLine rt clock) st (filter (decodable rt) lines) = foldl (parseLine rt clock) st lines"
    by (rule parseLoop_filter)
  show "map untimed (p_messages (foldl (parseLine rt clock) initParse lines))
       = map untimed (List.map_filter entryMessage (decodedEntries rt lines))"
    by (simp add: parseLoop_messages initParse_def)
next
  assume "JSON_parse rt' = JSON_parse rt
        \<and> locateSession rt sid = Some (fp, dp) \<and> locateSession rt' sid = Some (fp, dp)
        \<and> readJsonlLines rt fp = Inr (Some (lines, stat))
        \<and> readJsonlLines rt' fp = Inr (Some (filter (decodable rt) lines, stat))"
  then show "parseClaudeSession rt' clock sid = parseClaudeSession rt clock sid"
    by (simp add: parseClaudeSession_def parseSessionFile_lines [of rt' rt fp lines stat clock sid dp])
next
  assume a: "locateSession rt sid = Some (fp, dp)
        \<and> readJsonlLines rt fp = Inr (Some (lines, stat))"
  then have "parseClaudeSession rt clock sid = parseSessionFile rt clock fp sid dp"
    by (simp add: parseClaudeSession_def)
  also have "\<dots> =
       (if filter qualifying (decodedEntries rt lines) = [] then Inr None
        else (case makeInfo sid dp stat (foldl (extractLine rt) initScan lines) of
                Inl e \<Rightarrow> Inl e
              | Inr found \<Rightarrow>
                  Inr (Some \<lparr>info = found,
                             messages = messagesOf clock 0 (decodedEntries rt lines)\<rparr>)))"
    using a by (intro parseSessionFile_result) simp
  finally show "parseClaudeSession rt clock sid =
            (if filter qualifying (decodedEntries rt lines) = [] then Inr None
             else (case makeInfo sid dp stat
                          (foldl (extractLine rt) initScan (filter (decodable rt) lines)) of
                     Inl e \<Rightarrow> Inl e
                   | Inr found \<Rightarrow>
                       Inr (Some \<lparr>info = found,
                                  messages = messagesOf clock 0 (decodedEntries rt lines)\<rparr>)))"
    by (simp only: extractLoop_filter)
qed

text \<open>
  The session of the unit test on malformed lines with two assistant lines added, and
  the same session without the two lines that do not decode. Both are parsed into the
  user message and the message of the first assistant line; the second assistant line,
  whose content holds \<open>null\<close>, is counted and gives no message.
\<close>

theorem malformed_lines_no_effect_witness:
  "JSON_parse valid_session = JSON_parse noisy_session
   \<and> locateSession noisy_session ''s1''
       = Some (example_path ''s1.jsonl'', ''/home/user/myproject'')
   \<and> locateSession valid_session ''s1''
       = Some (example_path ''s1.jsonl'', ''/home/user/myproject'')
   \<and> readJsonlLines noisy_session (example_path ''s1.jsonl'')
       = Inr (Some ([line_queue, line_garbage, line_hello, line_truncated, line_reply,
                     line_nullblock], example_stat 300))
   \<and> filter (decodable noisy_session)
         [line_queue, line_garbage, line_hello, line_truncated, line_reply, line_nullblock]
       = [line_queue, line_hello, line_reply, line_nullblock]
   \<and> readJsonlLines valid_session (example_path ''s1.jsonl'')
       = Inr (Some ([line_queue, line_hello, line_reply, line_nullblock], example_stat 300))
   \<and> decodedEntries noisy_session
         [line_queue, line_garbage, line_hello, line_truncated, line_reply, line_nullblock]
       = [entry_queue, entry_hello, entry_reply, entry_nullblock]
   \<and> parseClaudeSession valid_session clock_a ''s1''
       = parseClaudeSession noisy_session clock_a ''s1''
   \<and> parseClaudeSession noisy_session clock_a ''s1''
       = Inr (Some
           \<lparr>info = hello_info\<lparr>assistantMessageCount := 2,
                                updatedAt := ''2026-01-15T10:00:03.000Z''\<rparr>,
            messages =
              [\<lparr>role = User, content = ''Hello, can you help me?'',
                 contentBlocks = [TextBlock ''Hello, can you help me?''],
                 hasToolBlocks = False, timestamp = ''2026-01-15T10:00:01.000Z''\<rparr>,
               \<lparr>role = Assistant, content = ''Of course!'',
                 contentBlocks = [TextBlock ''Of course!''],
                 hasToolBlocks = False, timestamp = ''2026-01-15T10:00:02.000Z''\<rparr>]\<rparr>)"
proof -
  have j: "JSON_parse valid_session = JSON_parse noisy_session"
    by (simp add: valid_session_def noisy_session_def one_session_sel)
  have l: "locateSession noisy_session ''s1''
             = Some (example_path ''s1.jsonl'', ''/home/user/myproject'')"
    "locateSession valid_session ''s1''
             = Some (example_path ''s1.jsonl'', ''/home/user/myproject'')"
    by (simp_all add: noisy_session_def valid_session_def one_session_locate example_path_def
        simple_name_def)
  have f: "filter (decodable noisy_session)
         [line_queue, line_garbage, line_hello, line_truncated, line_reply, line_nullblock]
       = [line_queue, line_hello, line_reply, line_nullblock]"
    by (simp add: decodable_def noisy_session_def one_session_sel example_parse_simps
        example_parse_garbage)
  have r: "readJsonlLines noisy_session (example_path ''s1.jsonl'')
       = Inr (Some ([line_queue, line_garbage, line_hello, line_truncated, line_reply,
                     line_nullblock], example_stat 300))"
    unfolding example_path_def noisy_session_def noisy_lines_def
    by (rule one_session_read [OF small_size]) (simp add: example_lines_ok)
  have r': "readJsonlLines valid_session (example_path ''s1.jsonl'')
       = Inr (Some ([line_queue, line_hello, line_reply, line_nullblock], example_stat 300))"
    unfolding example_path_def valid_session_def valid_lines_def
    by (rule one_session_read [OF small_size]) (simp add: example_lines_ok)
  have d: "decodedEntries noisy_session
         [line_queue, line_garbage, line_hello, line_truncated, line_reply, line_nullblock]
       = [entry_queue, entry_hello, entry_reply, entry_nullblock]"
    by (simp add: decodedEntries_def map_filter_simps noisy_session_def one_session_sel
        example_parse_simps example_parse_garbage)
  have q: "filter qualifying [entry_queue, entry_hello, entry_reply, entry_nullblock]
             = [entry_hello, entry_reply, entry_nullblock]"
    by (simp add: qualifying_def entry_queue_def entry_hello_def entry_reply_def
        entry_nullblock_def)
  have i: "makeInfo ''s1'' ''/home/user/myproject'' (example_stat 300)
             (foldl (extractLine noisy_session) initScan
                [line_queue, line_hello, line_reply, line_nullblock])
       = Inr (hello_info\<lparr>assistantMessageCount := 2,
                           updatedAt := ''2026-01-15T10:00:03.000Z''\<rparr>)"
    by (simp add: noisy_session_def pass_simps hello_info_def)
  have m: "messagesOf clock_a 0 [entry_queue, entry_hello, entry_reply, entry_nullblock]
       = [\<lparr>role = User, content = ''Hello, can you help me?'',
            contentBlocks = [TextBlock ''Hello, can you help me?''],
            hasToolBlocks = False, timestamp = ''2026-01-15T10:00:01.000Z''\<rparr>,
          \<lparr>role = Assistant, content = ''Of course!'',
            contentBlocks = [TextBlock ''Of course!''],
            hasToolBlocks = False, timestamp = ''2026-01-15T10:00:02.000Z''\<rparr>]"
    by (simp add: reconstruct_def pass_simps)
  show ?thesis
    using malformed_lines_no_effect [where rt = noisy_session and rt' = valid_session
        and sid = "''s1''" and fp = "example_path ''s1.jsonl''"
        and dp = "''/home/user/myproject''" and stat = "example_stat 300"
        and lines = "[line_queue, line_garbage, line_hello, line_truncated, line_reply,
                      line_nullblock]" and clock = clock_a]
      j l f r r' d q i m
    by simp
qed

subsection \<open>Sessions without qualifying events\<close>

text \<open>
  C6. For a session file that can be read and none of whose decoded lines is of type
  \<open>user\<close> or \<open>assistant\<close>: the metadata pass returns \<open>null\<close>, \<open>parseClaudeSession\<close>
  returns not-found when this is the file of the session, and \<open>listClaudeSessions\<close>
  pushes nothing for it: the listing is the one of the file system without the file.
\<close>

theorem no_qualifying_excluded:
  assumes "readJsonlLines rt fp = Inr (Some (lines, stat))"
    and "filter qualifying (decodedEntries rt lines) = []"
  shows "extractSessionInfo rt fp sid dp = Inr None
     \<and> parseSessionFile rt clock fp sid dp = Inr None
     \<and> (locateSession rt sid = Some (fp, dp) \<longrightarrow> parseClaudeSession rt clock sid = Inr None)
     \<and> (fp = path_join dirPath f
          \<longrightarrow> listFile rt dirPath dp f = []
            \<and> listClaudeSessions (withoutFile rt dirPath f) = listClaudeSessions rt)"
proof -
  have e: "\<And>sid dp. extractSessionInfo rt fp sid dp = Inr None"
    using assms by (rule extract_no_qualifying)
  have p: "parseSessionFile rt clock fp sid dp = Inr None"
    using e by (rule parse_None)
  have l: "fp = path_join dirPath f \<Longrightarrow> listFile rt dirPath dp f = []" for dp
    using e by (simp add: listFile_None)
  have w: "fp = path_join dirPath f
      \<Longrightarrow> listClaudeSessions (withoutFile rt dirPath f) = listClaudeSessions rt"
    using l by (rule listClaudeSessions_withoutFile)
  show ?thesis
    using e p l w by (simp add: parseClaudeSession_def)
qed

text \<open>A session file that holds a lifecycle marker only.\<close>

theorem no_qualifying_excluded_witness:
  "readJsonlLines (one_session ''s1.jsonl'' 300 (file_of [line_queue])) (example_path ''s1.jsonl'')
     = Inr (Some ([line_queue], example_stat 300))
   \<and> filter qualifying (decodedEntries (one_session ''s1.jsonl'' 300 (file_of [line_queue]))
        [line_queue]) = []
   \<and> locateSession (one_session ''s1.jsonl'' 300 (file_of [line_queue])) ''s1''
       = Some (example_path ''s1.jsonl'', ''/home/user/myproject'')
   \<and> parseClaudeSession (one_session ''s1.jsonl'' 300 (file_of [line_queue])) clock_a ''s1''
       = Inr None
   \<and> listFile (one_session ''s1.jsonl'' 300 (file_of [line_queue]))
        (path_join ''/home/u/.claude/projects'' ''-home-user-myproject'')
        ''/home/user/myproject'' ''s1.jsonl'' = []
   \<and> listClaudeSessions (one_session ''s1.jsonl'' 300 (file_of [line_queue])) = []"
proof -
  have r: "readJsonlLines (one_session ''s1.jsonl'' 300 (file_of [line_queue]))
       (example_path ''s1.jsonl'') = Inr (Some ([line_queue], example_stat 300))"
    unfolding example_path_def
    by (rule one_session_read [OF small_size]) (simp add: example_lines_ok)
  have q: "filter qualifying (decodedEntries (one_session ''s1.jsonl'' 300 (file_of [line_queue]))
        [line_queue]) = []"
    by (simp add: decodedEntries_def qualifying_def pass_simps)
  show ?thesis
    using no_qualifying_excluded [OF r q, where sid = "''s1''" and dp = "''/home/user/myproject''"
        and clock = clock_a
        and dirPath = "path_join ''/home/u/.claude/projects'' ''-home-user-myproject''"
        and f = "''s1.jsonl''"]
      r q
    by (simp add: one_session_locate example_path_def one_session_list endsWith_def
        simple_name_def)
qed

subsection \<open>The size ceiling\<close>

text \<open>
  C7. A session file whose size exceeds \<open>50 * 1024 * 1024\<close> bytes is not read:
  \<open>readJsonlLines\<close> returns \<open>null\<close>, \<open>parseClaudeSession\<close> returns not-found when this
  is the file of the session, and \<open>listClaudeSessions\<close> pushes nothing for it (the
  listing is the one of the file system without the file). A file of exactly
  \<open>50 * 1024 * 1024\<close> bytes is admitted: its lines are read.
\<close>

theorem size_ceiling:
  "(statSync rt fp = Inr stat \<and> st_size stat > 50 * 1024 * 1024
      \<longrightarrow> readJsonlLines rt fp = Inr None
        \<and> extractSessionInfo rt fp sid dp = Inr None
        \<and> parseSessionFile rt clock fp sid dp = Inr None
        \<and> (locateSession rt sid = Some (fp, dp) \<longrightarrow> parseClaudeSession rt clock sid = Inr None)
        \<and> (fp = path_join dirPath f
             \<longrightarrow> listFile rt dirPath dp f = []
               \<and> listClaudeSessions (withoutFile rt dirPath f) = listClaudeSessions rt))
   \<and> (statSync rt fp = Inr stat \<and> st_size stat = 50 * 1024 * 1024
        \<and> readFileSync rt fp = Inr body
      \<longrightarrow> readJsonlLines rt fp = Inr (Some (jsonl_lines body, stat)))"
proof (intro conjI impI)
  assume "statSync rt fp = Inr stat \<and> st_size stat = 50 * 1024 * 1024
        \<and> readFileSync rt fp = Inr body"
  then show "readJsonlLines rt fp = Inr (Some (jsonl_lines body, stat))"
    by (simp add: readJsonlLines_def MAX_FILE_SIZE_def)
next
  assume a: "statSync rt fp = Inr stat \<and> st_size stat > 50 * 1024 * 1024"
  then have big: "statSync rt fp = Inr stat" "st_size stat > MAX_FILE_SIZE"
    by (simp_all add: MAX_FILE_SIZE_def)
  show "readJsonlLines rt fp = Inr None"
    using big by (simp add: readJsonlLines_def)
  have e: "\<And>sid dp. extractSessionInfo rt fp sid dp = Inr None"
    using big by (rule extract_too_large)
  show "extractSessionInfo rt fp sid dp = Inr None" by (rule e)
  show p: "parseSessionFile rt clock fp sid dp = Inr None"
    using e by (rule parse_None)
  have l: "fp = path_join dirPath f \<Longrightarrow> listFile rt dirPath dp f = []" for dp
    using e by (simp add: listFile_None)
  {
    assume "locateSession rt sid = Some (fp, dp)"
    then show "parseClaudeSession rt clock sid = Inr None"
      using p by (simp add: parseClaudeSession_def)
  }
  {
    assume fp: "fp = path_join dirPath f"
    then show "listFile rt dirPath dp f = []" by (rule l)
    from fp show "listClaudeSessions (withoutFile rt dirPath f) = listClaudeSessions rt"
      using l by (intro listClaudeSessions_withoutFile) simp
  }
qed

text \<open>A file of one byte more than the ceiling, and a file of exactly the ceiling.\<close>

theorem size_ceiling_witness:
  "statSync (one_session ''s1.jsonl'' 52428801 (file_of [line_hello])) (example_path ''s1.jsonl'')
     = Inr (example_stat 52428801)
   \<and> st_size (example_stat 52428801) > 50 * 1024 * 1024
   \<and> locateSession (one_session ''s1.jsonl'' 52428801 (file_of [line_hello])) ''s1''
       = Some (example_path ''s1.jsonl'', ''/home/user/myproject'')
   \<and> parseClaudeSession (one_session ''s1.jsonl'' 52428801 (file_of [line_hello])) clock_a ''s1''
       = Inr None
   \<and> listClaudeSessions (one_session ''s1.jsonl'' 52428801 (file_of [line_hello])) = []
   \<and> statSync (one_session ''s1.jsonl'' 52428800 (file_of [line_hello])) (example_path ''s1.jsonl'')
       = Inr (example_stat 52428800)
   \<and> st_size (example_stat 52428800) = 50 * 1024 * 1024
   \<and> readFileSync (one_session ''s1.jsonl'' 52428800 (file_of [line_hello]))
         (example_path ''s1.jsonl'') = file_of [line_hello]
   \<and> readJsonlLines (one_session ''s1.jsonl'' 52428800 (file_of [line_hello]))
         (example_path ''s1.jsonl'') = Inr (Some ([line_hello], example_stat 52428800))"
proof -
  have j: "jsonl_lines (concat (map (\<lambda>l. l @ [CHR 0x0A]) [line_hello])) = [line_hello]"
    by (subst jsonl_lines_file) (simp_all add: example_lines_ok)
  show ?thesis
    using size_ceiling [where rt = "one_session ''s1.jsonl'' 52428801 (file_of [line_hello])"
        and fp = "example_path ''s1.jsonl''" and stat = "example_stat 52428801"
        and sid = "''s1''" and dp = "''/home/user/myproject''" and clock = clock_a
        and dirPath = "path_join ''/home/u/.claude/projects'' ''-home-user-myproject''"
        and f = "''s1.jsonl''"]
      size_ceiling [where rt = "one_session ''s1.jsonl'' 52428800 (file_of [line_hello])"
        and fp = "example_path ''s1.jsonl''" and stat = "example_stat 52428800"
        and body = "concat (map (\<lambda>l. l @ [CHR 0x0A]) [line_hello])"]
      j
    by (simp add: one_session_sel one_session_locate example_path_def example_stat_def
        file_of_def one_session_list endsWith_def simple_name_def)
qed

subsection \<open>Session identifiers\<close>

text \<open>
  C8. The session identifier is claimed to be the file name without its trailing
  extension, so that distinct file names give distinct identifiers. The code removes the
  first occurrence of \<open>.jsonl\<close> instead: the file \<open>a.jsonl.b.jsonl\<close> is listed as the
  session \<open>a.b.jsonl\<close>, the identifier that the file \<open>a.b.jsonl.jsonl\<close> gets too, and
  \<open>parseClaudeSession\<close> does not find the session under the identifier listed.
\<close>

theorem sessionId_first_occurrence:
  "map sessionId
     (listClaudeSessions (one_session ''a.jsonl.b.jsonl'' 300 (file_of [line_hello])))
     = [''a.b.jsonl'']
   \<and> map sessionId
       (listClaudeSessions (one_session ''a.b.jsonl.jsonl'' 300 (file_of [line_hello])))
     = [''a.b.jsonl'']
   \<and> parseClaudeSession (one_session ''a.jsonl.b.jsonl'' 300 (file_of [line_hello])) clock_a
        ''a.b.jsonl'' = Inr None"
  using one_session_listing [of 300 "[line_hello]" "''a.jsonl.b.jsonl''"]
    one_session_listing [of 300 "[line_hello]" "''a.b.jsonl.jsonl''"]
  by (simp add: small_size example_lines_ok pass_simps parseClaudeSession_def
      one_session_locate)

subsection \<open>The path decoder\<close>

text \<open>
  C9. \<open>decodeProjectPath\<close> returns a name that does not begin with the escape character
  \<open>-\<close> unchanged; a name that begins with it comes back with the leading escape and every
  other escape replaced by \<open>/\<close>. The three examples of the specification evaluate as
  stated. The function is total: it returns a string on every string.
\<close>

theorem decodeProjectPath_spec:
  "(\<not> startsWith encodedName ''-'' \<longrightarrow> decodeProjectPath encodedName = encodedName)
   \<and> (startsWith encodedName ''-'' \<longrightarrow>
        decodeProjectPath encodedName
          = map (\<lambda>c. if c = CHR ''-'' then CHR ''/'' else c) encodedName)
   \<and> decodeProjectPath ''-root-myproject'' = ''/root/myproject''
   \<and> decodeProjectPath ''-Users-john-projects-myapp'' = ''/Users/john/projects/myapp''
   \<and> decodeProjectPath ''some-dir'' = ''some-dir''"
  by (simp add: decodeProjectPath_def replace_leading_dash_then_all startsWith_def)

theorem decodeProjectPath_spec_witness:
  "startsWith ''-a-b'' ''-'' \<and> decodeProjectPath ''-a-b'' = ''/a/b''
   \<and> \<not> startsWith ''a-b'' ''-'' \<and> decodeProjectPath ''a-b'' = ''a-b''"
  using decodeProjectPath_spec [of "''-a-b''"] decodeProjectPath_spec [of "''a-b''"]
  by (simp add: startsWith_def)

subsection \<open>A session without messages\<close>

text \<open>
  C10. \<open>parseClaudeSession\<close> can return a session whose list of messages is empty: for
  the session file whose only line is a user entry with the content of three spaces, the
  result has \<open>userMessageCount = 1\<close> and no message, and \<open>listClaudeSessions\<close> lists the
  session.
\<close>

theorem empty_messages_session:
  "parseClaudeSession (one_session ''s1.jsonl'' 300 (file_of [line_blank])) clock_a ''s1''
     = Inr (Some \<lparr>info = \<lparr>sessionId = ''s1'', projectPath = ''/home/user/myproject'',
             projectName = ''myproject'', cwd = ''/home/user/myproject'',
             gitBranch = [], version = [], preview = ''   '',
             userMessageCount = 1, assistantMessageCount = 0,
             createdAt = ''2026-01-15T10:00:01.000Z'',
             updatedAt = ''2026-01-15T10:00:01.000Z'', fileSize = 300\<rparr>,
          messages = []\<rparr>)
   \<and> listClaudeSessions (one_session ''s1.jsonl'' 300 (file_of [line_blank]))
     = [\<lparr>sessionId = ''s1'', projectPath = ''/home/user/myproject'',
             projectName = ''myproject'', cwd = ''/home/user/myproject'',
             gitBranch = [], version = [], preview = ''   '',
             userMessageCount = 1, assistantMessageCount = 0,
             createdAt = ''2026-01-15T10:00:01.000Z'',
             updatedAt = ''2026-01-15T10:00:01.000Z'', fileSize = 300\<rparr>]"
  using one_session_parse [of 300 "[line_blank]" "''s1''" clock_a]
    one_session_listing [of 300 "[line_blank]" "''s1.jsonl''"]
  by (simp add: small_size example_lines_ok pass_simps)

end
